theory Spec2Isabelle
  imports Complex_Main "HOL-Library.Multiset"
begin

section \<open>Exceptions\<close>

text \<open>
  The Python exceptions the modelled code can raise, by kind. A function that may raise
  returns \<open>py_error + 'a\<close>, with \<open>Inl\<close> for the exception that propagates.
  \<open>FileNotFoundError\<close> is the one exception the code catches (in \<open>load\<close>).
\<close>

datatype py_error = ValueError | KeyError | TypeError | FileNotFoundError | JSONDecodeError

section \<open>Enums\<close>

datatype Visibility = PUBLIC | PRIVATE

datatype PermissionLevel = VIEW_ONLY | COLLABORATIVE

datatype TimeDisplayPreference = WORLD | LOCAL | BOTH

datatype TimeRangeType = DAY | WEEK | MONTH | YEAR

section \<open>Time model\<close>

record WorldClockTime =
  day :: int
  hour :: int
  minute :: int

text \<open>\<open>WorldClockTime.__post_init__\<close>: the three range checks, in the source's order.\<close>

definition post_init :: "WorldClockTime \<Rightarrow> py_error + WorldClockTime" where
  "post_init t =
     (if day t < 0 then Inl ValueError
      else if \<not> (0 \<le> hour t \<and> hour t \<le> 23) then Inl ValueError
      else if \<not> (0 \<le> minute t \<and> minute t \<le> 59) then Inl ValueError
      else Inr t)"

text \<open>The dataclass constructor \<open>WorldClockTime(day, hour, minute)\<close>.\<close>

definition mk_WorldClockTime :: "int \<Rightarrow> int \<Rightarrow> int \<Rightarrow> py_error + WorldClockTime" where
  "mk_WorldClockTime d h m = post_init \<lparr>day = d, hour = h, minute = m\<rparr>"

definition to_minutes :: "WorldClockTime \<Rightarrow> int" where
  "to_minutes t = day t * 24 * 60 + hour t * 60 + minute t"

text \<open>
  \<open>WorldClockTime.plus_minutes\<close>. Python's \<open>//\<close> and \<open>%\<close> round towards minus infinity,
  as \<open>div\<close> and \<open>mod\<close> on \<open>int\<close> do.
\<close>

definition plus_minutes :: "WorldClockTime \<Rightarrow> int \<Rightarrow> py_error + WorldClockTime" where
  "plus_minutes t delta =
     (let total = to_minutes t + delta in
      if total < 0 then Inl ValueError
      else
        let d = total div (24 * 60);
            rem = total mod (24 * 60);
            h = rem div 60;
            m = rem mod 60
        in mk_WorldClockTime d h m)"

text \<open>The bounds the constructor checks, as a predicate on the fields.\<close>

definition valid_time :: "WorldClockTime \<Rightarrow> bool" where
  "valid_time t =
     (0 \<le> day t \<and> 0 \<le> hour t \<and> hour t \<le> 23 \<and> 0 \<le> minute t \<and> minute t \<le> 59)"

section \<open>Realms and settings\<close>

record RealmTimeRule =
  offset_minutes :: int
  day_length_multiplier :: real

definition to_local :: "RealmTimeRule \<Rightarrow> WorldClockTime \<Rightarrow> py_error + WorldClockTime" where
  "to_local rule world_time = plus_minutes world_time (offset_minutes rule)"

record Realm =
  realm_id :: string
  realm_name :: string
  realm_description :: string
  map_id :: int
  x_coord :: int
  y_coord :: int
  time_rule :: RealmTimeRule

record Settings =
  current_realm_id :: string
  theme :: string
  time_display :: TimeDisplayPreference

section \<open>Sharing, campaigns and events\<close>

record InventoryItem =
  item_name :: string
  item_description :: string
  item_type :: string
  rarity :: int

record InventoryChange =
  item :: InventoryItem
  delta_qty :: int
  target_char_id :: "string option"

record Share =
  shared_with_user :: string
  permission :: PermissionLevel

record QuestEvent =
  event_id :: string
  event_name :: string
  start_time :: WorldClockTime
  end_time :: "WorldClockTime option"
  event_realm_id :: string
  participant_char_ids :: "string list"
  event_shares :: "Share list"
  inventory_changes :: "InventoryChange list"

record Campaign =
  campaign_id :: string
  owner_username :: string
  campaign_name :: string
  visibility :: Visibility
  archived :: bool
  quest_event_ids :: "string list"
  shares :: "Share list"

text \<open>
  \<open>Campaign(campaign_id=cid, owner_username=owner, name=name)\<close>, as \<open>create_campaign\<close>
  builds it: the other fields take the dataclass defaults.
\<close>

definition new_campaign :: "string \<Rightarrow> string \<Rightarrow> string \<Rightarrow> Campaign" where
  "new_campaign cid owner nm =
     \<lparr>campaign_id = cid, owner_username = owner, campaign_name = nm, visibility = PRIVATE,
      archived = False, quest_event_ids = [], shares = []\<rparr>"

text \<open>
  The loop of \<open>share_with\<close> over the share list: the first share of \<open>username\<close> gets the new
  permission and the method returns; when the loop ends without a match, a new share is
  appended.
\<close>

fun share_loop :: "string \<Rightarrow> PermissionLevel \<Rightarrow> Share list \<Rightarrow> Share list" where
  "share_loop username p [] = [\<lparr>shared_with_user = username, permission = p\<rparr>]"
| "share_loop username p (s # ss) =
     (if shared_with_user s = username then s\<lparr>permission := p\<rparr> # ss
      else s # share_loop username p ss)"

text \<open>\<open>Campaign.share_with\<close>: returns at once for the owner.\<close>

definition share_with :: "Campaign \<Rightarrow> string \<Rightarrow> PermissionLevel \<Rightarrow> Campaign" where
  "share_with c username p =
     (if username = owner_username c then c
      else c\<lparr>shares := share_loop username p (shares c)\<rparr>)"

definition unshare_with :: "Campaign \<Rightarrow> string \<Rightarrow> Campaign" where
  "unshare_with c username =
     c\<lparr>shares := filter (\<lambda>s. shared_with_user s \<noteq> username) (shares c)\<rparr>"

text \<open>The loop of \<open>get_permission\<close>: the permission of the first share of \<open>username\<close>.\<close>

fun share_lookup :: "string \<Rightarrow> Share list \<Rightarrow> PermissionLevel option" where
  "share_lookup username [] = None"
| "share_lookup username (s # ss) =
     (if shared_with_user s = username then Some (permission s)
      else share_lookup username ss)"

definition get_permission :: "Campaign \<Rightarrow> string \<Rightarrow> PermissionLevel option" where
  "get_permission c username =
     (if username = owner_username c then Some COLLABORATIVE
      else if visibility c = PUBLIC then Some VIEW_ONLY
      else share_lookup username (shares c))"

definition can_view :: "Campaign \<Rightarrow> string \<Rightarrow> bool" where
  "can_view c username = (get_permission c username \<noteq> None)"

definition can_edit :: "Campaign \<Rightarrow> string \<Rightarrow> bool" where
  "can_edit c username = (get_permission c username = Some COLLABORATIVE)"

text \<open>
  A call the menu can make on a campaign's share list, and a sequence of such calls run in
  order.
\<close>

datatype share_call = ShareWith string PermissionLevel | UnshareWith string

fun run_share_call :: "Campaign \<Rightarrow> share_call \<Rightarrow> Campaign" where
  "run_share_call c (ShareWith username p) = share_with c username p"
| "run_share_call c (UnshareWith username) = unshare_with c username"

definition run_share_calls :: "Campaign \<Rightarrow> share_call list \<Rightarrow> Campaign" where
  "run_share_calls c calls = foldl run_share_call c calls"

text \<open>
  The invariant of the data model on a share list: at most one share per username, and
  none for the owner.
\<close>

definition share_inv :: "Campaign \<Rightarrow> bool" where
  "share_inv c =
     (distinct (map shared_with_user (shares c))
      \<and> owner_username c \<notin> set (map shared_with_user (shares c)))"

section \<open>Example data\<close>

definition demo_campaign :: Campaign where
  "demo_campaign =
     \<lparr>campaign_id = ''P1'', owner_username = ''alice'', campaign_name = ''Quest'',
      visibility = PUBLIC, archived = False, quest_event_ids = [],
      shares = [\<lparr>shared_with_user = ''bob'', permission = COLLABORATIVE\<rparr>]\<rparr>"

definition demo_calls :: "share_call list" where
  "demo_calls = [ShareWith ''bob'' VIEW_ONLY, ShareWith ''alice'' COLLABORATIVE,
     ShareWith ''bob'' COLLABORATIVE, UnshareWith ''carol'', ShareWith ''carol'' VIEW_ONLY]"

section \<open>Characters, users and the application state\<close>

record Character =
  char_id :: string
  char_name :: string
  class_name :: string
  level :: int
  inventory :: "InventoryItem list"

record User =
  username :: string
  settings :: Settings
  campaign_ids :: "string list"
  character_ids :: "string list"

text \<open>The fields of \<open>GuildQuestApp\<close>; each dictionary is a map from its keys.\<close>

record GuildQuestApp =
  users :: "string \<rightharpoonup> User"
  realms :: "string \<rightharpoonup> Realm"
  campaigns :: "string \<rightharpoonup> Campaign"
  events :: "string \<rightharpoonup> QuestEvent"
  characters :: "string \<rightharpoonup> Character"
  id_counters :: "string \<rightharpoonup> int"
  current_user :: "string option"

text \<open>\<open>GuildQuestApp.__init__\<close>.\<close>

definition init_app :: GuildQuestApp where
  "init_app =
     \<lparr>users = Map.empty, realms = Map.empty, campaigns = Map.empty, events = Map.empty,
      characters = Map.empty,
      id_counters = [''realm'' \<mapsto> 1, ''campaign'' \<mapsto> 1, ''event'' \<mapsto> 1, ''char'' \<mapsto> 1],
      current_user = None\<rparr>"

section \<open>Timeline query\<close>

text \<open>
  The loop of \<open>_get_campaign_events_by_range\<close> over \<open>camp.quest_event_ids\<close>: an id with no
  event in the store is skipped, an event whose start lies in the window is appended to
  \<open>collected\<close>.
\<close>

fun collect_events ::
  "(string \<rightharpoonup> QuestEvent) \<Rightarrow> int \<Rightarrow> int \<Rightarrow> string list \<Rightarrow> QuestEvent list \<Rightarrow> QuestEvent list"
where
  "collect_events evs w_start w_end [] collected = collected"
| "collect_events evs w_start w_end (eid # eids) collected =
     (case evs eid of
        None \<Rightarrow> collect_events evs w_start w_end eids collected
      | Some e \<Rightarrow>
          (let m = to_minutes (start_time e) in
           if w_start \<le> m \<and> m < w_end
           then collect_events evs w_start w_end eids (collected @ [e])
           else collect_events evs w_start w_end eids collected))"

text \<open>
  \<open>_get_campaign_events_by_range\<close>. Python's \<open>list.sort\<close> is stable, as \<open>sort_key\<close> is.
\<close>

definition get_campaign_events_by_range ::
  "GuildQuestApp \<Rightarrow> Campaign \<Rightarrow> TimeRangeType \<Rightarrow> WorldClockTime \<Rightarrow> QuestEvent list"
where
  "get_campaign_events_by_range app camp range_type anchor =
     (let start_day_minutes = day anchor * 24 * 60;
          w_start = start_day_minutes;
          w_end = (if range_type = DAY then w_start + 24 * 60
                   else if range_type = WEEK then w_start + 7 * 24 * 60
                   else if range_type = MONTH then w_start + 30 * 24 * 60
                   else w_start + 365 * 24 * 60)
      in sort_key (\<lambda>ev. to_minutes (start_time ev))
           (collect_events (events app) w_start w_end (quest_event_ids camp) []))"

text \<open>
  The words of the specification, to compare the query with: the campaign's events are
  the events its \<open>quest_event_ids\<close> resolve to, in that order; the window starts at the
  anchor's day and has the length of the range kind.
\<close>

definition campaign_events :: "GuildQuestApp \<Rightarrow> Campaign \<Rightarrow> QuestEvent list" where
  "campaign_events app camp = List.map_filter (events app) (quest_event_ids camp)"

definition window_start :: "WorldClockTime \<Rightarrow> int" where
  "window_start anchor = day anchor * 1440"

fun length_minutes :: "TimeRangeType \<Rightarrow> int" where
  "length_minutes DAY = 1440"
| "length_minutes WEEK = 7 * 1440"
| "length_minutes MONTH = 30 * 1440"
| "length_minutes YEAR = 365 * 1440"

definition in_window :: "TimeRangeType \<Rightarrow> WorldClockTime \<Rightarrow> QuestEvent \<Rightarrow> bool" where
  "in_window range_type anchor e =
     (window_start anchor \<le> to_minutes (start_time e)
      \<and> to_minutes (start_time e) < window_start anchor + length_minutes range_type)"

definition demo_event_late :: QuestEvent where
  "demo_event_late =
     \<lparr>event_id = ''E1'', event_name = ''Night watch'',
      start_time = \<lparr>day = 5, hour = 23, minute = 59\<rparr>, end_time = None,
      event_realm_id = ''R1'', participant_char_ids = [''C1''], event_shares = [],
      inventory_changes = []\<rparr>"

definition demo_event_next_day :: QuestEvent where
  "demo_event_next_day =
     \<lparr>event_id = ''E2'', event_name = ''Dawn'',
      start_time = \<lparr>day = 6, hour = 0, minute = 0\<rparr>, end_time = None,
      event_realm_id = ''R1'', participant_char_ids = [], event_shares = [],
      inventory_changes = []\<rparr>"

definition demo_event_morning :: QuestEvent where
  "demo_event_morning =
     \<lparr>event_id = ''E3'', event_name = ''Council'',
      start_time = \<lparr>day = 5, hour = 8, minute = 30\<rparr>,
      end_time = Some \<lparr>day = 9, hour = 0, minute = 0\<rparr>,
      event_realm_id = ''R7'', participant_char_ids = [], event_shares = [],
      inventory_changes = []\<rparr>"

definition demo_app :: GuildQuestApp where
  "demo_app = init_app\<lparr>events :=
     [''E1'' \<mapsto> demo_event_late, ''E2'' \<mapsto> demo_event_next_day, ''E3'' \<mapsto> demo_event_morning]\<rparr>"

definition demo_timeline_campaign :: Campaign where
  "demo_timeline_campaign =
     (new_campaign ''P2'' ''alice'' ''Timeline'')\<lparr>quest_event_ids := [''E1'', ''E2'', ''E9'', ''E3'']\<rparr>"

section \<open>Timeline display\<close>

text \<open>Python's \<open>str\<close> of an integer, and the format \<open>02d\<close> (zero-padded to width two).\<close>

definition digit_char :: "nat \<Rightarrow> char" where
  "digit_char n = ''0123456789'' ! n"

fun str_nat :: "nat \<Rightarrow> string" where
  "str_nat n = (if n < 10 then [digit_char n] else str_nat (n div 10) @ [digit_char (n mod 10)])"

declare str_nat.simps [simp del]

definition str_int :: "int \<Rightarrow> string" where
  "str_int i = (if i < 0 then CHR ''-'' # str_nat (nat (- i)) else str_nat (nat i))"

definition fmt_02d :: "int \<Rightarrow> string" where
  "fmt_02d i = (let s = str_int i in replicate (2 - length s) CHR ''0'' @ s)"

text \<open>\<open>WorldClockTime.__str__\<close>.\<close>

definition str_WorldClockTime :: "WorldClockTime \<Rightarrow> string" where
  "str_WorldClockTime t =
     ''Day '' @ str_int (day t) @ '' '' @ fmt_02d (hour t) @ '':'' @ fmt_02d (minute t)"

text \<open>
  The body of the loop of \<open>view_timeline\<close> over the events in range. \<open>local_str\<close> is the
  local-time string: the realm's local time when the realm resolves (\<open>to_local\<close> may
  raise), the world-time string otherwise.
\<close>

definition local_str :: "Realm option \<Rightarrow> QuestEvent \<Rightarrow> py_error + string" where
  "local_str realm e =
     (case realm of
        Some r \<Rightarrow>
          (case to_local (time_rule r) (start_time e) of
             Inl err \<Rightarrow> Inl err
           | Inr lt \<Rightarrow> Inr (str_WorldClockTime lt))
      | None \<Rightarrow> Inr (str_WorldClockTime (start_time e)))"

definition timeline_line :: "GuildQuestApp \<Rightarrow> User \<Rightarrow> QuestEvent \<Rightarrow> py_error + string" where
  "timeline_line app user e =
     (let realm = realms app (event_realm_id e);
          rname = (case realm of Some r \<Rightarrow> realm_name r | None \<Rightarrow> event_realm_id e);
          world_str = str_WorldClockTime (start_time e)
      in case local_str realm e of
           Inl err \<Rightarrow> Inl err
         | Inr loc \<Rightarrow>
             (let t = (if time_display (settings user) = WORLD then world_str
                       else if time_display (settings user) = LOCAL
                         then loc @ '' ('' @ rname @ '')''
                       else world_str @ '' | '' @ loc @ '' ('' @ rname @ '')'')
              in Inr (''- '' @ event_id e @ '': '' @ event_name e @ '' @ '' @ t)))"

text \<open>The loop: the lines printed, or the exception that ends it.\<close>

fun timeline_lines :: "GuildQuestApp \<Rightarrow> User \<Rightarrow> QuestEvent list \<Rightarrow> py_error + string list" where
  "timeline_lines app user [] = Inr []"
| "timeline_lines app user (e # es) =
     (case timeline_line app user e of
        Inl err \<Rightarrow> Inl err
      | Inr l \<Rightarrow>
          (case timeline_lines app user es of
             Inl err \<Rightarrow> Inl err
           | Inr ls \<Rightarrow> Inr (l # ls)))"

text \<open>
  The words of the specification for an event whose realm does not resolve: the line with
  the world-time string in the place of the local-time string, and the event's
  \<open>realm_id\<close> in the place of the realm's name.
\<close>

definition world_time_line :: "TimeDisplayPreference \<Rightarrow> QuestEvent \<Rightarrow> string" where
  "world_time_line pref e =
     ''- '' @ event_id e @ '': '' @ event_name e @ '' @ '' @
       (case pref of
          WORLD \<Rightarrow> str_WorldClockTime (start_time e)
        | LOCAL \<Rightarrow> str_WorldClockTime (start_time e) @ '' ('' @ event_realm_id e @ '')''
        | BOTH \<Rightarrow> str_WorldClockTime (start_time e) @ '' | '' @ str_WorldClockTime (start_time e)
                   @ '' ('' @ event_realm_id e @ '')'')"

definition demo_user :: User where
  "demo_user =
     \<lparr>username = ''alice'',
      settings = \<lparr>current_realm_id = ''R1'', theme = ''classic'', time_display = BOTH\<rparr>,
      campaign_ids = [''P2''], character_ids = [''C1'']\<rparr>"

section \<open>Inventory changes\<close>

definition add_item :: "Character \<Rightarrow> InventoryItem \<Rightarrow> Character" where
  "add_item ch it = ch\<lparr>inventory := inventory ch @ [it]\<rparr>"

text \<open>
  The loop of \<open>remove_item_by_name\<close> over a copy of the inventory, with the inventory
  \<open>cur_inv\<close> and the count \<open>removed\<close> as its state. \<open>list.remove(it)\<close> deletes the first element
  equal to \<open>it\<close> and raises \<open>ValueError\<close> when there is none.
\<close>

fun remove_loop ::
  "string \<Rightarrow> int \<Rightarrow> InventoryItem list \<Rightarrow> InventoryItem list \<Rightarrow> int
     \<Rightarrow> py_error + (InventoryItem list \<times> int)"
where
  "remove_loop nm qty [] cur_inv removed = Inr (cur_inv, removed)"
| "remove_loop nm qty (it # its) cur_inv removed =
     (if removed \<ge> qty then Inr (cur_inv, removed)
      else if item_name it = nm then
        (if it \<in> set cur_inv then remove_loop nm qty its (remove1 it cur_inv) (removed + 1)
         else Inl ValueError)
      else remove_loop nm qty its cur_inv removed)"

definition remove_item_by_name :: "Character \<Rightarrow> string \<Rightarrow> int \<Rightarrow> py_error + (Character \<times> int)" where
  "remove_item_by_name ch nm qty =
     (case remove_loop nm qty (inventory ch) (inventory ch) 0 of
        Inl err \<Rightarrow> Inl err
      | Inr (cur_inv, removed) \<Rightarrow> Inr (ch\<lparr>inventory := cur_inv\<rparr>, removed))"

text \<open>\<open>for _ in range(n): ch.add_item(item)\<close>.\<close>

fun add_item_times :: "nat \<Rightarrow> Character \<Rightarrow> InventoryItem \<Rightarrow> Character" where
  "add_item_times 0 ch it = ch"
| "add_item_times (Suc n) ch it = add_item_times n (add_item ch it) it"

text \<open>
  The targets of one change in \<open>_apply_event_inventory_changes\<close>. The test
  \<open>if chg.target_char_id\<close> is a truth test: \<open>None\<close> and the empty string both fail it.
\<close>

definition change_targets :: "QuestEvent \<Rightarrow> InventoryChange \<Rightarrow> string list" where
  "change_targets e chg =
     (case target_char_id chg of
        Some t \<Rightarrow> if t \<noteq> [] then [t] else participant_char_ids e
      | None \<Rightarrow> participant_char_ids e)"

text \<open>The body of the loop over the targets, on the dictionary of characters.\<close>

definition apply_change_to ::
  "(string \<rightharpoonup> Character) \<Rightarrow> InventoryChange \<Rightarrow> string \<Rightarrow> py_error + (string \<rightharpoonup> Character)"
where
  "apply_change_to chars chg cid =
     (case chars cid of
        None \<Rightarrow> Inr chars
      | Some ch \<Rightarrow>
          if delta_qty chg > 0
            then Inr (chars(cid \<mapsto> add_item_times (nat (delta_qty chg)) ch (item chg)))
          else if delta_qty chg < 0
            then (case remove_item_by_name ch (item_name (item chg)) (- delta_qty chg) of
                    Inl err \<Rightarrow> Inl err
                  | Inr (ch', removed) \<Rightarrow> Inr (chars(cid \<mapsto> ch')))
          else Inr chars)"

fun apply_change_to_targets ::
  "(string \<rightharpoonup> Character) \<Rightarrow> InventoryChange \<Rightarrow> string list \<Rightarrow> py_error + (string \<rightharpoonup> Character)"
where
  "apply_change_to_targets chars chg [] = Inr chars"
| "apply_change_to_targets chars chg (cid # cids) =
     (case apply_change_to chars chg cid of
        Inl err \<Rightarrow> Inl err
      | Inr chars' \<Rightarrow> apply_change_to_targets chars' chg cids)"

fun apply_changes ::
  "(string \<rightharpoonup> Character) \<Rightarrow> QuestEvent \<Rightarrow> InventoryChange list \<Rightarrow> py_error + (string \<rightharpoonup> Character)"
where
  "apply_changes chars e [] = Inr chars"
| "apply_changes chars e (chg # chgs) =
     (case apply_change_to_targets chars chg (change_targets e chg) of
        Inl err \<Rightarrow> Inl err
      | Inr chars' \<Rightarrow> apply_changes chars' e chgs)"

text \<open>\<open>_apply_event_inventory_changes\<close>.\<close>

definition apply_event_inventory_changes :: "GuildQuestApp \<Rightarrow> QuestEvent \<Rightarrow> py_error + GuildQuestApp" where
  "apply_event_inventory_changes app e =
     (case apply_changes (characters app) e (inventory_changes e) of
        Inl err \<Rightarrow> Inl err
      | Inr chars \<Rightarrow> Inr (app\<lparr>characters := chars\<rparr>))"

text \<open>
  The words of the specification for a removal: the first \<open>n\<close> items with the given name
  are removed, fewer when fewer exist; the other items keep their order.
\<close>

fun remove_first_named :: "nat \<Rightarrow> string \<Rightarrow> InventoryItem list \<Rightarrow> InventoryItem list" where
  "remove_first_named n nm [] = []"
| "remove_first_named n nm (it # its) =
     (if n = 0 then it # its
      else if item_name it = nm then remove_first_named (n - 1) nm its
      else it # remove_first_named n nm its)"

definition count_named :: "string \<Rightarrow> InventoryItem list \<Rightarrow> nat" where
  "count_named nm cur_inv = length (filter (\<lambda>it. item_name it = nm) cur_inv)"

definition demo_potion :: InventoryItem where
  "demo_potion = \<lparr>item_name = ''potion'', item_description = ''heals'', item_type = ''misc'', rarity = 1\<rparr>"

definition demo_old_potion :: InventoryItem where
  "demo_old_potion = \<lparr>item_name = ''potion'', item_description = ''stale'', item_type = ''misc'', rarity = 0\<rparr>"

definition demo_sword :: InventoryItem where
  "demo_sword = \<lparr>item_name = ''sword'', item_description = '''', item_type = ''weapon'', rarity = 3\<rparr>"

definition demo_hero :: Character where
  "demo_hero =
     \<lparr>char_id = ''C1'', char_name = ''Hero'', class_name = ''Adventurer'', level = 1,
      inventory = [demo_potion, demo_sword, demo_old_potion]\<rparr>"

definition demo_chars :: "string \<rightharpoonup> Character" where
  "demo_chars = [''C1'' \<mapsto> demo_hero]"

text \<open>
  The words of the specification for one change applied to one target: an unknown
  character id is skipped; a positive \<open>delta_qty\<close> appends the item that many times; a
  negative one removes up to that many items of the item's name; zero changes nothing.
\<close>

definition changed_chars ::
  "(string \<rightharpoonup> Character) \<Rightarrow> InventoryChange \<Rightarrow> string \<Rightarrow> (string \<rightharpoonup> Character)"
where
  "changed_chars chars chg cid =
     (case chars cid of
        None \<Rightarrow> chars
      | Some ch \<Rightarrow>
          if 0 < delta_qty chg
            then chars(cid \<mapsto> ch\<lparr>inventory := inventory ch @ replicate (nat (delta_qty chg)) (item chg)\<rparr>)
          else if delta_qty chg < 0
            then chars(cid \<mapsto> ch\<lparr>inventory :=
                   remove_first_named (nat (- delta_qty chg)) (item_name (item chg)) (inventory ch)\<rparr>)
          else chars)"

definition demo_remove_event :: QuestEvent where
  "demo_remove_event =
     demo_event_late\<lparr>inventory_changes :=
       [\<lparr>item = demo_potion, delta_qty = - 3, target_char_id = None\<rparr>,
        \<lparr>item = demo_sword, delta_qty = 2, target_char_id = Some ''C404''\<rparr>]\<rparr>"

definition demo_blank_change :: InventoryChange where
  "demo_blank_change = \<lparr>item = demo_sword, delta_qty = 1, target_char_id = Some ''''\<rparr>"

definition demo_blank_target_event :: QuestEvent where
  "demo_blank_target_event = demo_event_late\<lparr>inventory_changes := [demo_blank_change]\<rparr>"

definition demo_inventory_app :: GuildQuestApp where
  "demo_inventory_app = init_app\<lparr>characters := demo_chars\<rparr>"

section \<open>Persistence: enum tags\<close>

text \<open>\<open>.value\<close> of an enum member, and the lookup by value \<open>Visibility(s)\<close>, which raises
  \<open>ValueError\<close> for a string that is no member's value.\<close>

fun Visibility_value :: "Visibility \<Rightarrow> string" where
  "Visibility_value PUBLIC = ''PUBLIC''"
| "Visibility_value PRIVATE = ''PRIVATE''"

definition Visibility_of_value :: "string \<Rightarrow> py_error + Visibility" where
  "Visibility_of_value s =
     (if s = ''PUBLIC'' then Inr PUBLIC
      else if s = ''PRIVATE'' then Inr PRIVATE
      else Inl ValueError)"

fun PermissionLevel_value :: "PermissionLevel \<Rightarrow> string" where
  "PermissionLevel_value VIEW_ONLY = ''VIEW_ONLY''"
| "PermissionLevel_value COLLABORATIVE = ''COLLABORATIVE''"

definition PermissionLevel_of_value :: "string \<Rightarrow> py_error + PermissionLevel" where
  "PermissionLevel_of_value s =
     (if s = ''VIEW_ONLY'' then Inr VIEW_ONLY
      else if s = ''COLLABORATIVE'' then Inr COLLABORATIVE
      else Inl ValueError)"

text \<open>
  \<open>str(member)\<close> for \<open>class PermissionLevel(str, Enum)\<close>: the enum machinery gives such a
  class \<open>Enum.__str__\<close>, which returns the class name, a dot and the member's name, not
  the member's value.
\<close>

fun PermissionLevel_str :: "PermissionLevel \<Rightarrow> string" where
  "PermissionLevel_str VIEW_ONLY = ''PermissionLevel.VIEW_ONLY''"
| "PermissionLevel_str COLLABORATIVE = ''PermissionLevel.COLLABORATIVE''"

definition TimeDisplayPreference_of_value :: "string \<Rightarrow> py_error + TimeDisplayPreference" where
  "TimeDisplayPreference_of_value s =
     (if s = ''WORLD'' then Inr WORLD
      else if s = ''LOCAL'' then Inr LOCAL
      else if s = ''BOTH'' then Inr BOTH
      else Inl ValueError)"

section \<open>Persistence: the dictionaries of the saved document\<close>

text \<open>
  The saved document is JSON. Each dictionary of it is modelled as a record with one
  optional field per key: \<open>None\<close> when the key is absent (for the keys read with
  \<open>d.get\<close> and no default, also when the value is \<open>null\<close>) and, when present, a value of the
  type \<open>save\<close> writes for that key. The dictionaries keyed by identifier are lists of
  pairs, in the order of the document.
\<close>

record share_dict =
  sd_shared_with_user :: "string option"
  sd_permission :: "string option"

record campaign_dict =
  cd_campaign_id :: "string option"
  cd_owner_username :: "string option"
  cd_name :: "string option"
  cd_visibility :: "string option"
  cd_archived :: "bool option"
  cd_quest_event_ids :: "string list option"
  cd_shares :: "share_dict list option"

record time_dict =
  td_day :: "int option"
  td_hour :: "int option"
  td_minute :: "int option"

record item_dict =
  itd_name :: "string option"
  itd_description :: "string option"
  itd_type :: "string option"
  itd_rarity :: "int option"

record change_dict =
  chd_item :: "item_dict option"
  chd_delta_qty :: "int option"
  chd_target_char_id :: "string option"

record event_dict =
  ed_event_id :: "string option"
  ed_name :: "string option"
  ed_start_time :: "time_dict option"
  ed_end_time :: "time_dict option"
  ed_realm_id :: "string option"
  ed_participant_char_ids :: "string list option"
  ed_shares :: "share_dict list option"
  ed_inventory_changes :: "change_dict list option"

record character_dict =
  chr_char_id :: "string option"
  chr_name :: "string option"
  chr_class_name :: "string option"
  chr_level :: "int option"
  chr_inventory :: "item_dict list option"

record time_rule_dict =
  trd_offset_minutes :: "int option"
  trd_day_length_multiplier :: "real option"

record realm_dict =
  rd_realm_id :: "string option"
  rd_name :: "string option"
  rd_description :: "string option"
  rd_map_id :: "int option"
  rd_x_coord :: "int option"
  rd_y_coord :: "int option"
  rd_time_rule :: "time_rule_dict option"

record settings_dict =
  std_current_realm_id :: "string option"
  std_theme :: "string option"
  std_time_display :: "string option"

record user_dict =
  ud_settings :: "settings_dict option"
  ud_campaign_ids :: "string list option"
  ud_character_ids :: "string list option"

record payload =
  p_id_counters :: "(string \<rightharpoonup> int) option"
  p_current_user :: "string option"
  p_users :: "(string \<times> user_dict) list option"
  p_realms :: "(string \<times> realm_dict) list option"
  p_campaigns :: "(string \<times> campaign_dict) list option"
  p_events :: "(string \<times> event_dict) list option"
  p_characters :: "(string \<times> character_dict) list option"

text \<open>What \<open>open\<close> and \<open>json.load\<close> make of the file: no file, a file that is not JSON,
  or a document.\<close>

datatype file_content = NoFile | NotJson | Json payload

text \<open>\<open>d[key]\<close>: \<open>KeyError\<close> for an absent key.\<close>

definition lookup_key :: "'a option \<Rightarrow> py_error + 'a" where
  "lookup_key v = (case v of None \<Rightarrow> Inl KeyError | Some x \<Rightarrow> Inr x)"

text \<open>\<open>d.get(key, default)\<close>.\<close>

definition get_default :: "'a option \<Rightarrow> 'a \<Rightarrow> 'a" where
  "get_default v dflt = (case v of None \<Rightarrow> dflt | Some x \<Rightarrow> x)"

text \<open>A list comprehension whose element expression may raise: it stops at the first
  exception.\<close>

fun decode_list :: "('a \<Rightarrow> py_error + 'b) \<Rightarrow> 'a list \<Rightarrow> py_error + 'b list" where
  "decode_list f [] = Inr []"
| "decode_list f (x # xs) =
     (case f x of
        Inl err \<Rightarrow> Inl err
      | Inr y \<Rightarrow> (case decode_list f xs of Inl err \<Rightarrow> Inl err | Inr ys \<Rightarrow> Inr (y # ys)))"

text \<open>A dictionary comprehension \<open>{k: f(d) for k, d in items}\<close>: the new dictionary is
  built entry by entry (a later entry for the same key replaces the earlier one) and
  stops at the first exception.\<close>

fun decode_dict ::
  "('d \<Rightarrow> py_error + 'a) \<Rightarrow> (string \<times> 'd) list \<Rightarrow> (string \<rightharpoonup> 'a) \<Rightarrow> py_error + (string \<rightharpoonup> 'a)"
where
  "decode_dict f [] acc = Inr acc"
| "decode_dict f ((k, d) # rest) acc =
     (case f d of
        Inl err \<Rightarrow> Inl err
      | Inr x \<Rightarrow> decode_dict f rest (acc(k \<mapsto> x)))"

section \<open>Persistence: encoding and decoding the entities\<close>

text \<open>
  A share inside \<open>_campaign_to_dict\<close> and \<open>_event_to_dict\<close>: \<open>asdict\<close> keeps the enum
  member, and the loop then stores \<open>str(s["permission"])\<close>.
\<close>

definition share_to_dict :: "Share \<Rightarrow> share_dict" where
  "share_to_dict s =
     \<lparr>sd_shared_with_user = Some (shared_with_user s),
      sd_permission = Some (PermissionLevel_str (permission s))\<rparr>"

text \<open>\<open>Share(shared_with_user=s["shared_with_user"], permission=PermissionLevel(s["permission"]))\<close>.\<close>

definition dict_to_share :: "share_dict \<Rightarrow> py_error + Share" where
  "dict_to_share s =
     (case lookup_key (sd_shared_with_user s) of
        Inl err \<Rightarrow> Inl err
      | Inr u \<Rightarrow>
     (case lookup_key (sd_permission s) of
        Inl err \<Rightarrow> Inl err
      | Inr p \<Rightarrow>
     (case PermissionLevel_of_value p of
        Inl err \<Rightarrow> Inl err
      | Inr lvl \<Rightarrow> Inr \<lparr>shared_with_user = u, permission = lvl\<rparr>)))"

definition campaign_to_dict :: "Campaign \<Rightarrow> campaign_dict" where
  "campaign_to_dict c =
     \<lparr>cd_campaign_id = Some (campaign_id c),
      cd_owner_username = Some (owner_username c),
      cd_name = Some (campaign_name c),
      cd_visibility = Some (Visibility_value (visibility c)),
      cd_archived = Some (archived c),
      cd_quest_event_ids = Some (quest_event_ids c),
      cd_shares = Some (map share_to_dict (shares c))\<rparr>"

definition dict_to_campaign :: "campaign_dict \<Rightarrow> py_error + Campaign" where
  "dict_to_campaign d =
     (case decode_list dict_to_share (get_default (cd_shares d) []) of
        Inl err \<Rightarrow> Inl err
      | Inr shs \<Rightarrow>
     (case lookup_key (cd_campaign_id d) of
        Inl err \<Rightarrow> Inl err
      | Inr cid \<Rightarrow>
     (case lookup_key (cd_owner_username d) of
        Inl err \<Rightarrow> Inl err
      | Inr owner \<Rightarrow>
     (case lookup_key (cd_name d) of
        Inl err \<Rightarrow> Inl err
      | Inr nm \<Rightarrow>
     (case Visibility_of_value (get_default (cd_visibility d) ''PRIVATE'') of
        Inl err \<Rightarrow> Inl err
      | Inr vis \<Rightarrow>
          Inr \<lparr>campaign_id = cid, owner_username = owner, campaign_name = nm,
               visibility = vis, archived = get_default (cd_archived d) False,
               quest_event_ids = get_default (cd_quest_event_ids d) [],
               shares = shs\<rparr>)))))"

text \<open>\<open>asdict\<close> of a time, and \<open>WorldClockTime(st["day"], st["hour"], st["minute"])\<close>.\<close>

definition time_to_dict :: "WorldClockTime \<Rightarrow> time_dict" where
  "time_to_dict t = \<lparr>td_day = Some (day t), td_hour = Some (hour t), td_minute = Some (minute t)\<rparr>"

definition dict_to_time :: "time_dict \<Rightarrow> py_error + WorldClockTime" where
  "dict_to_time st =
     (case lookup_key (td_day st) of
        Inl err \<Rightarrow> Inl err
      | Inr d \<Rightarrow>
     (case lookup_key (td_hour st) of
        Inl err \<Rightarrow> Inl err
      | Inr h \<Rightarrow>
     (case lookup_key (td_minute st) of
        Inl err \<Rightarrow> Inl err
      | Inr m \<Rightarrow> mk_WorldClockTime d h m)))"

text \<open>The truth test \<open>if et\<close> on the value of \<open>d.get("end_time")\<close>: \<open>None\<close> and the empty
  dictionary fail it.\<close>

definition end_time_truthy :: "time_dict option \<Rightarrow> bool" where
  "end_time_truthy et =
     (case et of
        None \<Rightarrow> False
      | Some td \<Rightarrow> \<not> (td_day td = None \<and> td_hour td = None \<and> td_minute td = None))"

text \<open>\<open>WorldClockTime(et["day"], et["hour"], et["minute"]) if et else None\<close>.\<close>

definition dict_to_end_time :: "time_dict option \<Rightarrow> py_error + WorldClockTime option" where
  "dict_to_end_time et =
     (case et of
        None \<Rightarrow> Inr None
      | Some td \<Rightarrow>
          if end_time_truthy (Some td)
          then (case dict_to_time td of
                  Inl err \<Rightarrow> Inl err
                | Inr t \<Rightarrow> Inr (Some t))
          else Inr None)"

definition item_to_dict :: "InventoryItem \<Rightarrow> item_dict" where
  "item_to_dict it =
     \<lparr>itd_name = Some (item_name it), itd_description = Some (item_description it),
      itd_type = Some (item_type it), itd_rarity = Some (rarity it)\<rparr>"

text \<open>\<open>InventoryItem(**itemd)\<close>: \<open>TypeError\<close> without the required \<open>name\<close>.\<close>

definition dict_to_item :: "item_dict \<Rightarrow> py_error + InventoryItem" where
  "dict_to_item d =
     (case itd_name d of
        None \<Rightarrow> Inl TypeError
      | Some n \<Rightarrow>
          Inr \<lparr>item_name = n, item_description = get_default (itd_description d) '''',
               item_type = get_default (itd_type d) ''misc'',
               rarity = get_default (itd_rarity d) 0\<rparr>)"

definition change_to_dict :: "InventoryChange \<Rightarrow> change_dict" where
  "change_to_dict chg =
     \<lparr>chd_item = Some (item_to_dict (item chg)), chd_delta_qty = Some (delta_qty chg),
      chd_target_char_id = target_char_id chg\<rparr>"

definition dict_to_change :: "change_dict \<Rightarrow> py_error + InventoryChange" where
  "dict_to_change chg =
     (case lookup_key (chd_item chg) of
        Inl err \<Rightarrow> Inl err
      | Inr itemd \<Rightarrow>
     (case dict_to_item itemd of
        Inl err \<Rightarrow> Inl err
      | Inr it \<Rightarrow>
     (case lookup_key (chd_delta_qty chg) of
        Inl err \<Rightarrow> Inl err
      | Inr dq \<Rightarrow>
          Inr \<lparr>item = it, delta_qty = dq, target_char_id = chd_target_char_id chg\<rparr>)))"

definition event_to_dict :: "QuestEvent \<Rightarrow> event_dict" where
  "event_to_dict e =
     \<lparr>ed_event_id = Some (event_id e),
      ed_name = Some (event_name e),
      ed_start_time = Some (time_to_dict (start_time e)),
      ed_end_time = map_option time_to_dict (end_time e),
      ed_realm_id = Some (event_realm_id e),
      ed_participant_char_ids = Some (participant_char_ids e),
      ed_shares = Some (map share_to_dict (event_shares e)),
      ed_inventory_changes = Some (map change_to_dict (inventory_changes e))\<rparr>"

definition dict_to_event :: "event_dict \<Rightarrow> py_error + QuestEvent" where
  "dict_to_event d =
     (case lookup_key (ed_start_time d) of
        Inl err \<Rightarrow> Inl err
      | Inr st \<Rightarrow>
     (case dict_to_time st of
        Inl err \<Rightarrow> Inl err
      | Inr start \<Rightarrow>
     (case dict_to_end_time (ed_end_time d) of
        Inl err \<Rightarrow> Inl err
      | Inr endt \<Rightarrow>
     (case decode_list dict_to_share (get_default (ed_shares d) []) of
        Inl err \<Rightarrow> Inl err
      | Inr shs \<Rightarrow>
     (case decode_list dict_to_change (get_default (ed_inventory_changes d) []) of
        Inl err \<Rightarrow> Inl err
      | Inr chgs \<Rightarrow>
     (case lookup_key (ed_event_id d) of
        Inl err \<Rightarrow> Inl err
      | Inr eid \<Rightarrow>
     (case lookup_key (ed_name d) of
        Inl err \<Rightarrow> Inl err
      | Inr nm \<Rightarrow>
     (case lookup_key (ed_realm_id d) of
        Inl err \<Rightarrow> Inl err
      | Inr rid \<Rightarrow>
          Inr \<lparr>event_id = eid, event_name = nm, start_time = start, end_time = endt,
               event_realm_id = rid,
               participant_char_ids = get_default (ed_participant_char_ids d) [],
               event_shares = shs, inventory_changes = chgs\<rparr>))))))))"

definition dict_to_character :: "character_dict \<Rightarrow> py_error + Character" where
  "dict_to_character d =
     (case decode_list dict_to_item (get_default (chr_inventory d) []) of
        Inl err \<Rightarrow> Inl err
      | Inr its \<Rightarrow>
     (case lookup_key (chr_char_id d) of
        Inl err \<Rightarrow> Inl err
      | Inr cid \<Rightarrow>
     (case lookup_key (chr_name d) of
        Inl err \<Rightarrow> Inl err
      | Inr nm \<Rightarrow>
     (case lookup_key (chr_class_name d) of
        Inl err \<Rightarrow> Inl err
      | Inr cls \<Rightarrow>
          Inr \<lparr>char_id = cid, char_name = nm, class_name = cls,
               level = get_default (chr_level d) 1, inventory = its\<rparr>))))"

definition dict_to_realm :: "realm_dict \<Rightarrow> py_error + Realm" where
  "dict_to_realm d =
     (let tr = get_default (rd_time_rule d)
                 \<lparr>trd_offset_minutes = None, trd_day_length_multiplier = None\<rparr>;
          rule = \<lparr>offset_minutes = get_default (trd_offset_minutes tr) 0,
                  day_length_multiplier = get_default (trd_day_length_multiplier tr) 1\<rparr>
      in case lookup_key (rd_realm_id d) of
           Inl err \<Rightarrow> Inl err
         | Inr rid \<Rightarrow>
        (case lookup_key (rd_name d) of
           Inl err \<Rightarrow> Inl err
         | Inr nm \<Rightarrow>
             Inr \<lparr>realm_id = rid, realm_name = nm,
                  realm_description = get_default (rd_description d) '''',
                  map_id = get_default (rd_map_id d) 0,
                  x_coord = get_default (rd_x_coord d) 0,
                  y_coord = get_default (rd_y_coord d) 0,
                  time_rule = rule\<rparr>))"

text \<open>The body of the loop of \<open>load\<close> over the users of the document.\<close>

definition dict_to_user :: "string \<Rightarrow> user_dict \<Rightarrow> py_error + User" where
  "dict_to_user uname ud =
     (case lookup_key (ud_settings ud) of
        Inl err \<Rightarrow> Inl err
      | Inr sd \<Rightarrow>
     (case lookup_key (std_current_realm_id sd) of
        Inl err \<Rightarrow> Inl err
      | Inr rid \<Rightarrow>
     (case TimeDisplayPreference_of_value (get_default (std_time_display sd) ''WORLD'') of
        Inl err \<Rightarrow> Inl err
      | Inr pref \<Rightarrow>
          Inr \<lparr>username = uname,
               settings = \<lparr>current_realm_id = rid,
                           theme = get_default (std_theme sd) ''classic'',
                           time_display = pref\<rparr>,
               campaign_ids = get_default (ud_campaign_ids ud) [],
               character_ids = get_default (ud_character_ids ud) []\<rparr>)))"

section \<open>Persistence: load\<close>

text \<open>
  The loop that fills \<open>self.users\<close>, entry by entry: the dictionary as it stands when the
  loop ends, and the exception that ended it, if any.
\<close>

fun load_users ::
  "(string \<rightharpoonup> User) \<Rightarrow> (string \<times> user_dict) list \<Rightarrow> (string \<rightharpoonup> User) \<times> py_error option"
where
  "load_users us [] = (us, None)"
| "load_users us ((uname, ud) # rest) =
     (case dict_to_user uname ud of
        Inl err \<Rightarrow> (us, Some err)
      | Inr u \<Rightarrow> load_users (us(uname \<mapsto> u)) rest)"

text \<open>The last statement of \<open>load\<close>: \<open>self.current_user and ...\<close> is a truth test, which
  \<open>None\<close> and the empty string fail.\<close>

definition reset_current_user :: "GuildQuestApp \<Rightarrow> GuildQuestApp" where
  "reset_current_user app =
     (case current_user app of
        None \<Rightarrow> app
      | Some u \<Rightarrow> if u \<noteq> [] \<and> users app u = None then app\<lparr>current_user := None\<rparr> else app)"

text \<open>
  \<open>GuildQuestApp.load\<close>: the state of the application when the call ends, and the
  exception that leaves the call, if any. A missing file is caught and reported; every
  other exception propagates from where it is raised, after the assignments made so far.
\<close>

definition load :: "GuildQuestApp \<Rightarrow> file_content \<Rightarrow> GuildQuestApp \<times> py_error option" where
  "load app file =
     (case file of
        NoFile \<Rightarrow> (app, None)
      | NotJson \<Rightarrow> (app, Some JSONDecodeError)
      | Json pl \<Rightarrow>
          (let app1 = app\<lparr>id_counters := get_default (p_id_counters pl) (id_counters app)\<rparr>;
               app2 = app1\<lparr>current_user := p_current_user pl\<rparr>;
               (us, uerr) = load_users Map.empty (get_default (p_users pl) []);
               app3 = app2\<lparr>users := us\<rparr>
           in case uerr of
                Some err \<Rightarrow> (app3, Some err)
              | None \<Rightarrow>
             (case decode_dict dict_to_realm (get_default (p_realms pl) []) Map.empty of
                Inl err \<Rightarrow> (app3, Some err)
              | Inr rs \<Rightarrow>
             (case decode_dict dict_to_campaign (get_default (p_campaigns pl) []) Map.empty of
                Inl err \<Rightarrow> (app3\<lparr>realms := rs\<rparr>, Some err)
              | Inr cs \<Rightarrow>
             (case decode_dict dict_to_event (get_default (p_events pl) []) Map.empty of
                Inl err \<Rightarrow> (app3\<lparr>realms := rs, campaigns := cs\<rparr>, Some err)
              | Inr es \<Rightarrow>
             (case decode_dict dict_to_character (get_default (p_characters pl) []) Map.empty of
                Inl err \<Rightarrow> (app3\<lparr>realms := rs, campaigns := cs, events := es\<rparr>, Some err)
              | Inr chs \<Rightarrow>
                  (reset_current_user
                     (app3\<lparr>realms := rs, campaigns := cs, events := es, characters := chs\<rparr>),
                   None)))))))"

definition demo_logged_in_app :: GuildQuestApp where
  "demo_logged_in_app = init_app\<lparr>users := [''alice'' \<mapsto> demo_user], current_user := Some ''alice''\<rparr>"

definition demo_settings_dict :: settings_dict where
  "demo_settings_dict =
     \<lparr>std_current_realm_id = Some ''R1'', std_theme = None, std_time_display = Some ''LOCAL''\<rparr>"

text \<open>A document whose user \<open>bob\<close> has no \<open>settings\<close> key.\<close>

definition demo_bad_payload :: payload where
  "demo_bad_payload =
     \<lparr>p_id_counters = None, p_current_user = Some ''bob'',
      p_users = Some [(''bob'', \<lparr>ud_settings = None, ud_campaign_ids = None,
                                 ud_character_ids = None\<rparr>)],
      p_realms = None, p_campaigns = None, p_events = None, p_characters = None\<rparr>"

text \<open>A document whose \<open>current_user\<close> is the empty string.\<close>

definition demo_blank_user_payload :: payload where
  "demo_blank_user_payload =
     \<lparr>p_id_counters = None, p_current_user = Some '''',
      p_users = Some [(''bob'', \<lparr>ud_settings = Some demo_settings_dict, ud_campaign_ids = None,
                                 ud_character_ids = None\<rparr>)],
      p_realms = None, p_campaigns = None, p_events = None, p_characters = None\<rparr>"

text \<open>A document that names a user it does not hold.\<close>

definition demo_dangling_user_payload :: payload where
  "demo_dangling_user_payload = demo_blank_user_payload\<lparr>p_current_user := Some ''carol''\<rparr>"

section \<open>Time model: properties\<close>

lemma post_init_Inr:
  "0 \<le> d \<Longrightarrow> 0 \<le> h \<Longrightarrow> h \<le> 23 \<Longrightarrow> 0 \<le> m \<Longrightarrow> m \<le> 59 \<Longrightarrow>
     post_init \<lparr>day = d, hour = h, minute = m\<rparr> = Inr \<lparr>day = d, hour = h, minute = m\<rparr>"
  by (simp add: post_init_def)

lemma mk_WorldClockTime_Inr:
  "0 \<le> d \<Longrightarrow> 0 \<le> h \<Longrightarrow> h \<le> 23 \<Longrightarrow> 0 \<le> m \<Longrightarrow> m \<le> 59 \<Longrightarrow>
     mk_WorldClockTime d h m = Inr \<lparr>day = d, hour = h, minute = m\<rparr>"
  unfolding mk_WorldClockTime_def by (rule post_init_Inr)

lemma mk_WorldClockTime_Inl_iff:
  "mk_WorldClockTime d h m = Inl ValueError \<longleftrightarrow>
     d < 0 \<or> h < 0 \<or> 23 < h \<or> m < 0 \<or> 59 < m"
  by (auto simp add: mk_WorldClockTime_def post_init_def)

lemma renormalize_in_range:
  fixes total :: int
  assumes "0 \<le> total"
  shows "0 \<le> total div 1440"
    and "0 \<le> (total mod 1440) div 60" and "(total mod 1440) div 60 \<le> 23"
    and "0 \<le> (total mod 1440) mod 60" and "(total mod 1440) mod 60 \<le> 59"
proof -
  show "0 \<le> total div 1440" using assms by simp
  have r: "0 \<le> total mod 1440" "total mod 1440 < 1440" by simp_all
  show "0 \<le> (total mod 1440) div 60" using r by simp
  show "(total mod 1440) div 60 \<le> 23" using r by simp
  show "0 \<le> (total mod 1440) mod 60" by simp
  show "(total mod 1440) mod 60 \<le> 59" by simp
qed

lemma renormalize_sum:
  fixes total :: int
  shows "total div 1440 * 1440 + (total mod 1440) div 60 * 60 + (total mod 1440) mod 60 = total"
  by simp

lemma plus_minutes_unfold:
  "plus_minutes t delta =
     (if to_minutes t + delta < 0 then Inl ValueError
      else mk_WorldClockTime ((to_minutes t + delta) div 1440)
             (((to_minutes t + delta) mod 1440) div 60)
             (((to_minutes t + delta) mod 1440) mod 60))"
  by (simp add: plus_minutes_def Let_def)

lemma plus_minutes_Inr:
  assumes "0 \<le> to_minutes t + delta"
  shows "plus_minutes t delta =
           Inr \<lparr>day = (to_minutes t + delta) div 1440,
                hour = ((to_minutes t + delta) mod 1440) div 60,
                minute = ((to_minutes t + delta) mod 1440) mod 60\<rparr>"
proof -
  have "\<not> to_minutes t + delta < 0" using assms by (simp only: not_less)
  then have "plus_minutes t delta =
     mk_WorldClockTime ((to_minutes t + delta) div 1440)
             (((to_minutes t + delta) mod 1440) div 60)
             (((to_minutes t + delta) mod 1440) mod 60)"
    by (simp only: plus_minutes_unfold if_False)
  also have "\<dots> = Inr \<lparr>day = (to_minutes t + delta) div 1440,
                hour = ((to_minutes t + delta) mod 1440) div 60,
                minute = ((to_minutes t + delta) mod 1440) mod 60\<rparr>"
    by (rule mk_WorldClockTime_Inr) (rule renormalize_in_range [OF assms])+
  finally show ?thesis .
qed

lemma plus_minutes_Inl_iff:
  "plus_minutes t delta = Inl ValueError \<longleftrightarrow> to_minutes t + delta < 0"
proof (cases "to_minutes t + delta < 0")
  case True
  then show ?thesis by (simp add: plus_minutes_unfold)
next
  case False
  then have "0 \<le> to_minutes t + delta" by (simp only: not_less)
  from plus_minutes_Inr [OF this] False show ?thesis by (simp only: sum.distinct)
qed

lemma to_minutes_renormalized:
  fixes total :: int
  shows "to_minutes \<lparr>day = total div 1440, hour = (total mod 1440) div 60,
                      minute = (total mod 1440) mod 60\<rparr> = total"
proof -
  have "to_minutes \<lparr>day = total div 1440, hour = (total mod 1440) div 60,
                     minute = (total mod 1440) mod 60\<rparr>
        = total div 1440 * 1440 + (total mod 1440) div 60 * 60 + (total mod 1440) mod 60"
    by (simp add: to_minutes_def)
  then show ?thesis by (simp only: renormalize_sum)
qed

lemma to_minutes_plus_minutes:
  assumes "plus_minutes t delta = Inr t'"
  shows "to_minutes t' = to_minutes t + delta"
proof -
  have "\<not> to_minutes t + delta < 0"
    using assms plus_minutes_Inl_iff [of t delta] by auto
  then have nn: "0 \<le> to_minutes t + delta" by (simp only: not_less)
  from plus_minutes_Inr [OF nn] assms
  have t': "t' = \<lparr>day = (to_minutes t + delta) div 1440,
                  hour = ((to_minutes t + delta) mod 1440) div 60,
                  minute = ((to_minutes t + delta) mod 1440) mod 60\<rparr>"
    by (simp only: sum.inject)
  show ?thesis unfolding t' by (rule to_minutes_renormalized)
qed

text \<open>
  Claim C7. Constructing a \<open>WorldClockTime\<close> raises \<open>ValueError\<close> exactly when
  \<open>day < 0\<close>, \<open>hour\<close> is outside \<open>0..23\<close> or \<open>minute\<close> is outside \<open>0..59\<close>, and returns the
  value with these fields otherwise. \<open>plus_minutes t delta\<close> raises \<open>ValueError\<close> exactly
  when \<open>to_minutes t + delta < 0\<close>; otherwise it returns the time whose day is the total
  minute count divided by 1440 (floor), whose hour and minute come from the remainder,
  which passes the constructor's checks and whose \<open>to_minutes\<close> is \<open>to_minutes t + delta\<close>.
\<close>

theorem C7_time_validation:
  "(mk_WorldClockTime d h m = Inl ValueError \<longleftrightarrow>
      d < 0 \<or> h < 0 \<or> 23 < h \<or> m < 0 \<or> 59 < m)
   \<and> (mk_WorldClockTime d h m \<noteq> Inl ValueError \<longrightarrow>
        mk_WorldClockTime d h m = Inr \<lparr>day = d, hour = h, minute = m\<rparr>)
   \<and> (plus_minutes t delta = Inl ValueError \<longleftrightarrow> to_minutes t + delta < 0)
   \<and> (0 \<le> to_minutes t + delta \<longrightarrow>
        (\<exists>t'. plus_minutes t delta = Inr t'
           \<and> day t' = (to_minutes t + delta) div 1440
           \<and> hour t' = ((to_minutes t + delta) mod 1440) div 60
           \<and> minute t' = ((to_minutes t + delta) mod 1440) mod 60
           \<and> post_init t' = Inr t'
           \<and> to_minutes t' = to_minutes t + delta))"
proof (intro conjI impI)
  show "mk_WorldClockTime d h m = Inl ValueError \<longleftrightarrow>
          d < 0 \<or> h < 0 \<or> 23 < h \<or> m < 0 \<or> 59 < m"
    by (rule mk_WorldClockTime_Inl_iff)
next
  assume "mk_WorldClockTime d h m \<noteq> Inl ValueError"
  then have "\<not> (d < 0 \<or> h < 0 \<or> 23 < h \<or> m < 0 \<or> 59 < m)"
    by (simp add: mk_WorldClockTime_Inl_iff)
  then have "0 \<le> d" "0 \<le> h" "h \<le> 23" "0 \<le> m" "m \<le> 59" by simp_all
  then show "mk_WorldClockTime d h m = Inr \<lparr>day = d, hour = h, minute = m\<rparr>"
    by (rule mk_WorldClockTime_Inr)
next
  show "plus_minutes t delta = Inl ValueError \<longleftrightarrow> to_minutes t + delta < 0"
    by (rule plus_minutes_Inl_iff)
next
  assume nn: "0 \<le> to_minutes t + delta"
  define t' where "t' = \<lparr>day = (to_minutes t + delta) div 1440,
                          hour = ((to_minutes t + delta) mod 1440) div 60,
                          minute = ((to_minutes t + delta) mod 1440) mod 60\<rparr>"
  have eq: "plus_minutes t delta = Inr t'"
    unfolding t'_def by (rule plus_minutes_Inr [OF nn])
  have valid: "post_init t' = Inr t'"
    unfolding t'_def by (rule post_init_Inr) (rule renormalize_in_range [OF nn])+
  have tm: "to_minutes t' = to_minutes t + delta"
    by (rule to_minutes_plus_minutes [OF eq])
  have fields: "day t' = (to_minutes t + delta) div 1440"
    "hour t' = ((to_minutes t + delta) mod 1440) div 60"
    "minute t' = ((to_minutes t + delta) mod 1440) mod 60"
    by (simp_all only: t'_def WorldClockTime.select_convs)
  show "\<exists>t'. plus_minutes t delta = Inr t'
           \<and> day t' = (to_minutes t + delta) div 1440
           \<and> hour t' = ((to_minutes t + delta) mod 1440) div 60
           \<and> minute t' = ((to_minutes t + delta) mod 1440) mod 60
           \<and> post_init t' = Inr t'
           \<and> to_minutes t' = to_minutes t + delta"
    using eq valid tm fields by blast
qed

theorem C7_time_validation_witness:
  "mk_WorldClockTime 3 24 0 = Inl ValueError
   \<and> mk_WorldClockTime 3 23 59 = Inr \<lparr>day = 3, hour = 23, minute = 59\<rparr>
   \<and> plus_minutes \<lparr>day = 0, hour = 1, minute = 0\<rparr> (- 61) = Inl ValueError
   \<and> (\<exists>t'. plus_minutes \<lparr>day = 0, hour = 23, minute = 30\<rparr> 45 = Inr t'
         \<and> to_minutes t' = 1455)"
proof -
  have a: "mk_WorldClockTime 3 24 0 = Inl ValueError"
    using C7_time_validation [of 3 24 0] by simp
  have b: "mk_WorldClockTime 3 23 59 = Inr \<lparr>day = 3, hour = 23, minute = 59\<rparr>"
    using C7_time_validation [of 3 23 59] by simp
  have tm1: "to_minutes \<lparr>day = 0, hour = 1, minute = 0\<rparr> = 60"
    by (simp add: to_minutes_def)
  have c: "plus_minutes \<lparr>day = 0, hour = 1, minute = 0\<rparr> (- 61) = Inl ValueError"
    using C7_time_validation [of 0 0 0 "\<lparr>day = 0, hour = 1, minute = 0\<rparr>" "- 61"]
    unfolding tm1 by simp
  have tm2: "to_minutes \<lparr>day = 0, hour = 23, minute = 30\<rparr> = 1410"
    by (simp add: to_minutes_def)
  have d: "\<exists>t'. plus_minutes \<lparr>day = 0, hour = 23, minute = 30\<rparr> 45 = Inr t'
         \<and> to_minutes t' = 1455"
    using C7_time_validation [of 0 0 0 "\<lparr>day = 0, hour = 23, minute = 30\<rparr>" 45]
    unfolding tm2 by auto
  from a b c d show ?thesis by blast
qed

text \<open>
  Claim C8. Additivity of \<open>plus_minutes\<close>: when both intermediate totals
  \<open>to_minutes t + d1\<close> and \<open>to_minutes t + d1 + d2\<close> are non-negative, adding \<open>d1\<close> and
  then \<open>d2\<close> returns the same time as adding \<open>d1 + d2\<close> at once, and neither raises.
\<close>

theorem C8_plus_minutes_additive:
  assumes "0 \<le> to_minutes t + d1" and "0 \<le> to_minutes t + d1 + d2"
  shows "\<exists>t1 t2. plus_minutes t d1 = Inr t1 \<and> plus_minutes t1 d2 = Inr t2
           \<and> plus_minutes t (d1 + d2) = Inr t2"
proof -
  obtain t1 where t1: "plus_minutes t d1 = Inr t1"
    using plus_minutes_Inr [OF assms(1)] by blast
  have tm1: "to_minutes t1 = to_minutes t + d1"
    by (rule to_minutes_plus_minutes [OF t1])
  have nn2: "0 \<le> to_minutes t1 + d2" using assms(2) by (simp only: tm1)
  have nn3: "0 \<le> to_minutes t + (d1 + d2)" using assms(2) by (simp only: add.assoc)
  have "plus_minutes t1 d2 = plus_minutes t (d1 + d2)"
    unfolding plus_minutes_Inr [OF nn2] plus_minutes_Inr [OF nn3] tm1
    by (simp only: add.assoc)
  moreover obtain t2 where "plus_minutes t (d1 + d2) = Inr t2"
    using plus_minutes_Inr [OF nn3] by blast
  ultimately show ?thesis using t1 by auto
qed

theorem C8_plus_minutes_additive_witness:
  "\<exists>t1 t2. plus_minutes \<lparr>day = 2, hour = 3, minute = 4\<rparr> (- 3000) = Inr t1
       \<and> plus_minutes t1 2000 = Inr t2
       \<and> plus_minutes \<lparr>day = 2, hour = 3, minute = 4\<rparr> (- 3000 + 2000) = Inr t2"
proof -
  have tm: "to_minutes \<lparr>day = 2, hour = 3, minute = 4\<rparr> = 3064"
    by (simp add: to_minutes_def)
  have "0 \<le> to_minutes \<lparr>day = 2, hour = 3, minute = 4\<rparr> + (- 3000)"
    and "0 \<le> to_minutes \<lparr>day = 2, hour = 3, minute = 4\<rparr> + (- 3000) + 2000"
    unfolding tm by simp_all
  then show ?thesis by (rule C8_plus_minutes_additive)
qed

section \<open>Access control: properties\<close>

lemma share_lookup_find:
  "share_lookup u ss = map_option permission (find (\<lambda>s. shared_with_user s = u) ss)"
  by (induction ss) simp_all

lemma share_lookup_None_iff:
  "share_lookup u ss = None \<longleftrightarrow> u \<notin> set (map shared_with_user ss)"
  by (induction ss) auto

text \<open>
  Claim C2. \<open>get_permission\<close> follows the four-step precedence, first match winning: the
  owner gets \<open>COLLABORATIVE\<close>; otherwise a \<open>PUBLIC\<close> campaign gives \<open>VIEW_ONLY\<close>, whatever
  the share list holds (so a non-owner's share is never consulted there); otherwise the
  permission of the user's first share in the list; otherwise \<open>None\<close>, without an error.
  \<open>can_view\<close> holds iff the result is not \<open>None\<close>, \<open>can_edit\<close> iff it is \<open>COLLABORATIVE\<close>.
\<close>

theorem C2_permission_precedence:
  "get_permission c u =
     (if u = owner_username c then Some COLLABORATIVE
      else if visibility c = PUBLIC then Some VIEW_ONLY
      else map_option permission (find (\<lambda>s. shared_with_user s = u) (shares c)))
   \<and> (u \<noteq> owner_username c \<and> visibility c = PUBLIC \<longrightarrow>
        get_permission (c\<lparr>shares := ss\<rparr>) u = Some VIEW_ONLY)
   \<and> (u \<noteq> owner_username c \<and> visibility c = PRIVATE
        \<and> u \<notin> set (map shared_with_user (shares c)) \<longrightarrow> get_permission c u = None)
   \<and> (can_view c u \<longleftrightarrow> get_permission c u \<noteq> None)
   \<and> (can_edit c u \<longleftrightarrow> get_permission c u = Some COLLABORATIVE)"
proof (intro conjI impI)
  show "get_permission c u =
     (if u = owner_username c then Some COLLABORATIVE
      else if visibility c = PUBLIC then Some VIEW_ONLY
      else map_option permission (find (\<lambda>s. shared_with_user s = u) (shares c)))"
    by (simp add: get_permission_def share_lookup_find)
next
  assume "u \<noteq> owner_username c \<and> visibility c = PUBLIC"
  then show "get_permission (c\<lparr>shares := ss\<rparr>) u = Some VIEW_ONLY"
    by (simp add: get_permission_def)
next
  assume "u \<noteq> owner_username c \<and> visibility c = PRIVATE
        \<and> u \<notin> set (map shared_with_user (shares c))"
  then show "get_permission c u = None"
    by (simp add: get_permission_def share_lookup_None_iff)
next
  show "can_view c u \<longleftrightarrow> get_permission c u \<noteq> None"
    by (simp add: can_view_def)
next
  show "can_edit c u \<longleftrightarrow> get_permission c u = Some COLLABORATIVE"
    by (simp add: can_edit_def)
qed

theorem C2_permission_precedence_witness:
  "get_permission demo_campaign ''alice'' = Some COLLABORATIVE
   \<and> get_permission demo_campaign ''bob'' = Some VIEW_ONLY
   \<and> can_view demo_campaign ''bob'' \<and> \<not> can_edit demo_campaign ''bob''
   \<and> get_permission (demo_campaign\<lparr>visibility := PRIVATE\<rparr>) ''bob'' = Some COLLABORATIVE
   \<and> get_permission (demo_campaign\<lparr>visibility := PRIVATE\<rparr>) ''carol'' = None
   \<and> \<not> can_view (demo_campaign\<lparr>visibility := PRIVATE\<rparr>) ''carol''"
proof -
  note a = C2_permission_precedence [of demo_campaign "''alice''" "[]"]
  note b = C2_permission_precedence [of demo_campaign "''bob''" "shares demo_campaign"]
  note c = C2_permission_precedence [of "demo_campaign\<lparr>visibility := PRIVATE\<rparr>" "''bob''" "[]"]
  note d = C2_permission_precedence [of "demo_campaign\<lparr>visibility := PRIVATE\<rparr>" "''carol''" "[]"]
  have 1: "get_permission demo_campaign ''alice'' = Some COLLABORATIVE"
    using a by (simp add: demo_campaign_def)
  have 2: "get_permission demo_campaign ''bob'' = Some VIEW_ONLY"
    using b by (simp add: demo_campaign_def)
  have 3: "can_view demo_campaign ''bob''" "\<not> can_edit demo_campaign ''bob''"
    using b 2 by simp_all
  have 4: "get_permission (demo_campaign\<lparr>visibility := PRIVATE\<rparr>) ''bob'' = Some COLLABORATIVE"
    using c by (simp add: demo_campaign_def)
  have 5: "get_permission (demo_campaign\<lparr>visibility := PRIVATE\<rparr>) ''carol'' = None"
    using d by (simp add: demo_campaign_def)
  have 6: "\<not> can_view (demo_campaign\<lparr>visibility := PRIVATE\<rparr>) ''carol''"
    using d 5 by simp
  from 1 2 3 4 5 6 show ?thesis by blast
qed

lemma share_loop_users:
  "map shared_with_user (share_loop u p ss) =
     (if u \<in> set (map shared_with_user ss) then map shared_with_user ss
      else map shared_with_user ss @ [u])"
  by (induction ss) auto

lemma share_loop_filter:
  "distinct (map shared_with_user ss) \<Longrightarrow>
     filter (\<lambda>s. shared_with_user s = u) (share_loop u p ss)
       = [\<lparr>shared_with_user = u, permission = p\<rparr>]"
proof (induction ss)
  case Nil
  then show ?case by simp
next
  case (Cons s ss)
  show ?case
  proof (cases "shared_with_user s = u")
    case True
    with Cons.prems have "u \<notin> shared_with_user ` set ss" by auto
    then have "filter (\<lambda>s. shared_with_user s = u) ss = []"
      by (auto simp add: filter_empty_conv)
    with True show ?thesis by simp
  next
    case False
    with Cons show ?thesis by simp
  qed
qed

lemma share_with_inv:
  assumes "share_inv c"
  shows "share_inv (share_with c u p)"
proof (cases "u = owner_username c")
  case True
  then show ?thesis using assms by (simp add: share_with_def)
next
  case False
  have d: "distinct (map shared_with_user (shares c))"
    and o: "owner_username c \<notin> set (map shared_with_user (shares c))"
    using assms by (simp_all add: share_inv_def)
  have "distinct (map shared_with_user (share_loop u p (shares c)))"
    using d unfolding share_loop_users by simp
  moreover have "owner_username c \<notin> set (map shared_with_user (share_loop u p (shares c)))"
    using o False unfolding share_loop_users by simp
  ultimately show ?thesis using False by (simp add: share_inv_def share_with_def)
qed

lemma unshare_with_inv: "share_inv c \<Longrightarrow> share_inv (unshare_with c u)"
  by (auto simp add: share_inv_def unshare_with_def distinct_map_filter)

lemma run_share_call_inv: "share_inv c \<Longrightarrow> share_inv (run_share_call c call)"
  by (cases call) (simp_all add: share_with_inv unshare_with_inv)

lemma run_share_call_owner: "owner_username (run_share_call c call) = owner_username c"
  by (cases call) (simp_all add: share_with_def unshare_with_def)

lemma run_share_calls_inv:
  "share_inv c \<Longrightarrow> share_inv (run_share_calls c calls)"
  unfolding run_share_calls_def
  by (induction calls arbitrary: c) (simp_all add: run_share_call_inv)

lemma run_share_calls_owner:
  "owner_username (run_share_calls c calls) = owner_username c"
  unfolding run_share_calls_def
  by (induction calls arbitrary: c) (simp_all add: run_share_call_owner)

lemma new_campaign_inv: "share_inv (new_campaign cid owner nm)"
  by (simp add: share_inv_def new_campaign_def)

lemma share_with_twice:
  assumes "share_inv c" and "u \<noteq> owner_username c"
  shows "filter (\<lambda>s. shared_with_user s = u) (shares (share_with (share_with c u p1) u p2))
           = [\<lparr>shared_with_user = u, permission = p2\<rparr>]"
proof -
  have "share_inv (share_with c u p1)" using assms(1) by (rule share_with_inv)
  then have "distinct (map shared_with_user (shares (share_with c u p1)))"
    by (simp add: share_inv_def)
  moreover have "owner_username (share_with c u p1) = owner_username c"
    by (simp add: share_with_def)
  ultimately show ?thesis
    using assms(2) by (simp add: share_with_def [of "share_with c u p1"] share_loop_filter)
qed

lemma unshare_with_absent:
  "u \<notin> set (map shared_with_user (shares c)) \<Longrightarrow> unshare_with c u = c"
proof -
  assume "u \<notin> set (map shared_with_user (shares c))"
  then have "filter (\<lambda>s. shared_with_user s \<noteq> u) (shares c) = shares c"
    by (auto simp add: filter_id_conv)
  then show ?thesis by (simp add: unshare_with_def)
qed

text \<open>
  Claim C6. After any sequence of \<open>share_with\<close> and \<open>unshare_with\<close> calls on a newly
  created campaign, and more generally on any campaign whose share list has at most one
  share per username and none for the owner, the share list has at most one share per
  username and none for the owner, whose name the calls never change; sharing twice with
  a user \<open>u\<close> other than the owner leaves exactly one share for \<open>u\<close>, at the second level;
  \<open>share_with\<close> for the owner changes nothing; and \<open>unshare_with\<close> for a username with no
  share returns the campaign unchanged, with no error.
\<close>

theorem C6_share_list_invariant:
  "share_inv (run_share_calls (new_campaign cid owner nm) calls)
   \<and> (share_inv c0 \<longrightarrow>
        share_inv (run_share_calls c0 calls)
        \<and> owner_username (run_share_calls c0 calls) = owner_username c0
        \<and> (u \<noteq> owner_username c0 \<longrightarrow>
             filter (\<lambda>s. shared_with_user s = u)
               (shares (share_with (share_with (run_share_calls c0 calls) u L1) u L2))
             = [\<lparr>shared_with_user = u, permission = L2\<rparr>])
        \<and> share_with (run_share_calls c0 calls) (owner_username c0) L = run_share_calls c0 calls
        \<and> (u \<notin> set (map shared_with_user (shares (run_share_calls c0 calls))) \<longrightarrow>
             unshare_with (run_share_calls c0 calls) u = run_share_calls c0 calls))"
proof (intro conjI impI)
  show "share_inv (run_share_calls (new_campaign cid owner nm) calls)"
    using new_campaign_inv by (rule run_share_calls_inv)
next
  assume "share_inv c0"
  then show "share_inv (run_share_calls c0 calls)" by (rule run_share_calls_inv)
next
  show "owner_username (run_share_calls c0 calls) = owner_username c0"
    by (rule run_share_calls_owner)
next
  assume "share_inv c0" and "u \<noteq> owner_username c0"
  then have "share_inv (run_share_calls c0 calls)"
    and "u \<noteq> owner_username (run_share_calls c0 calls)"
    by (simp_all add: run_share_calls_inv run_share_calls_owner)
  then show "filter (\<lambda>s. shared_with_user s = u)
               (shares (share_with (share_with (run_share_calls c0 calls) u L1) u L2))
             = [\<lparr>shared_with_user = u, permission = L2\<rparr>]"
    by (rule share_with_twice)
next
  show "share_with (run_share_calls c0 calls) (owner_username c0) L = run_share_calls c0 calls"
    by (simp add: share_with_def run_share_calls_owner)
next
  assume "u \<notin> set (map shared_with_user (shares (run_share_calls c0 calls)))"
  then show "unshare_with (run_share_calls c0 calls) u = run_share_calls c0 calls"
    by (rule unshare_with_absent)
qed

lemma demo_calls_run:
  "shares (run_share_calls (new_campaign ''P1'' ''alice'' ''Quest'') demo_calls)
     = [\<lparr>shared_with_user = ''bob'', permission = COLLABORATIVE\<rparr>,
        \<lparr>shared_with_user = ''carol'', permission = VIEW_ONLY\<rparr>]"
  by (simp add: run_share_calls_def demo_calls_def new_campaign_def share_with_def
      unshare_with_def)

theorem C6_share_list_invariant_witness:
  "share_inv (new_campaign ''P1'' ''alice'' ''Quest'')
   \<and> share_inv (run_share_calls (new_campaign ''P1'' ''alice'' ''Quest'') demo_calls)
   \<and> shares (run_share_calls (new_campaign ''P1'' ''alice'' ''Quest'') demo_calls)
       = [\<lparr>shared_with_user = ''bob'', permission = COLLABORATIVE\<rparr>,
          \<lparr>shared_with_user = ''carol'', permission = VIEW_ONLY\<rparr>]
   \<and> filter (\<lambda>s. shared_with_user s = ''bob'')
        (shares (share_with (share_with
           (run_share_calls (new_campaign ''P1'' ''alice'' ''Quest'') demo_calls)
           ''bob'' COLLABORATIVE) ''bob'' VIEW_ONLY))
       = [\<lparr>shared_with_user = ''bob'', permission = VIEW_ONLY\<rparr>]
   \<and> unshare_with (run_share_calls (new_campaign ''P1'' ''alice'' ''Quest'') demo_calls) ''dave''
       = run_share_calls (new_campaign ''P1'' ''alice'' ''Quest'') demo_calls"
proof -
  let ?c0 = "new_campaign ''P1'' ''alice'' ''Quest''"
  have inv0: "share_inv ?c0"
    by (simp add: share_inv_def new_campaign_def)
  have own: "owner_username ?c0 = ''alice''"
    by (simp add: new_campaign_def)
  note t1 = C6_share_list_invariant [where ?c0.0 = ?c0 and calls = demo_calls
      and u = "''dave''" and cid = "''P1''" and owner = "''alice''" and nm = "''Quest''"]
  note t2 = C6_share_list_invariant [where ?c0.0 = ?c0 and calls = demo_calls
      and u = "''bob''" and ?L1.0 = COLLABORATIVE and ?L2.0 = VIEW_ONLY]
  have absent: "''dave'' \<notin> set (map shared_with_user (shares (run_share_calls ?c0 demo_calls)))"
    unfolding demo_calls_run by simp
  have notowner: "''bob'' \<noteq> owner_username ?c0"
    unfolding own by simp
  from t1 t2 inv0 absent notowner demo_calls_run show ?thesis by blast
qed

section \<open>Timeline query: properties\<close>

lemma collect_events_eq:
  "collect_events evs a b eids collected =
     collected @ filter (\<lambda>e. a \<le> to_minutes (start_time e) \<and> to_minutes (start_time e) < b)
                   (List.map_filter evs eids)"
  by (induction eids arbitrary: collected)
     (simp_all add: List.map_filter_simps Let_def split: option.splits)

lemma set_map_filter_iff:
  "y \<in> set (List.map_filter f xs) \<longleftrightarrow> (\<exists>x. x \<in> set xs \<and> f x = Some y)"
  by (induction xs) (auto simp add: List.map_filter_simps split: option.splits)

lemma window_end_eq:
  "(if r = DAY then w + 24 * 60
    else if r = WEEK then w + 7 * 24 * 60
    else if r = MONTH then w + 30 * 24 * 60
    else w + 365 * 24 * 60) = w + length_minutes r"
  by (cases r) simp_all

lemma get_campaign_events_by_range_eq:
  "get_campaign_events_by_range app camp r anchor =
     sort_key (\<lambda>ev. to_minutes (start_time ev)) (filter (in_window r anchor) (campaign_events app camp))"
proof -
  have w: "day anchor * 24 * 60 = window_start anchor"
    by (simp add: window_start_def)
  have f: "(\<lambda>e. window_start anchor \<le> to_minutes (start_time e)
            \<and> to_minutes (start_time e) < window_start anchor + length_minutes r)
           = in_window r anchor"
    by (rule ext) (simp add: in_window_def)
  show ?thesis
    unfolding get_campaign_events_by_range_def Let_def w window_end_eq
      collect_events_eq campaign_events_def [symmetric] f
    by simp
qed

lemma insort_key_map_end_time:
  "insort_key (\<lambda>ev. to_minutes (start_time ev)) (e\<lparr>end_time := f (end_time e)\<rparr>)
       (map (\<lambda>e. e\<lparr>end_time := f (end_time e)\<rparr>) xs)
     = map (\<lambda>e. e\<lparr>end_time := f (end_time e)\<rparr>) (insort_key (\<lambda>ev. to_minutes (start_time ev)) e xs)"
  by (induction xs) simp_all

lemma sort_key_map_end_time:
  "sort_key (\<lambda>ev. to_minutes (start_time ev)) (map (\<lambda>e. e\<lparr>end_time := f (end_time e)\<rparr>) xs)
     = map (\<lambda>e. e\<lparr>end_time := f (end_time e)\<rparr>) (sort_key (\<lambda>ev. to_minutes (start_time ev)) xs)"
  by (induction xs) (simp_all add: insort_key_map_end_time)

lemma campaign_events_map:
  "campaign_events (app\<lparr>events := map_option g \<circ> events app\<rparr>) camp
     = map g (campaign_events app camp)"
proof -
  have "List.map_filter (map_option g \<circ> evs) eids = map g (List.map_filter evs eids)" for evs eids
    by (induction eids) (simp_all add: List.map_filter_simps split: option.splits)
  then show ?thesis by (simp add: campaign_events_def)
qed

lemma in_window_end_time [simp]:
  "in_window r anchor (e\<lparr>end_time := x\<rparr>) = in_window r anchor e"
  by (simp add: in_window_def)

lemma get_campaign_events_end_time:
  "get_campaign_events_by_range (app\<lparr>events := map_option (\<lambda>e. e\<lparr>end_time := f (end_time e)\<rparr>) \<circ> events app\<rparr>)
       camp r anchor
     = map (\<lambda>e. e\<lparr>end_time := f (end_time e)\<rparr>) (get_campaign_events_by_range app camp r anchor)"
  unfolding get_campaign_events_by_range_eq campaign_events_map
  by (simp add: filter_map comp_def sort_key_map_end_time)

text \<open>
  Claim C4. For every campaign, range kind and anchor, the timeline query returns exactly
  the campaign's events (the events its \<open>quest_event_ids\<close> resolve to, each as often as it
  is listed) whose start lies in the half-open window from \<open>anchor.day * 1440\<close> of length
  1440, 7 * 1440, 30 * 1440 or 365 * 1440 minutes, sorted ascending by the start's minute
  count (stably, from the order of the list). The anchor's hour and minute do not change
  the result, and neither do the events' end times.
\<close>

theorem C4_timeline_query:
  "get_campaign_events_by_range app camp r anchor
     = sort_key (\<lambda>ev. to_minutes (start_time ev))
         (filter (in_window r anchor) (campaign_events app camp))
   \<and> mset (get_campaign_events_by_range app camp r anchor)
       = filter_mset (in_window r anchor) (mset (campaign_events app camp))
   \<and> sorted (map (\<lambda>ev. to_minutes (start_time ev)) (get_campaign_events_by_range app camp r anchor))
   \<and> (e \<in> set (get_campaign_events_by_range app camp r anchor) \<longleftrightarrow>
        (\<exists>eid. eid \<in> set (quest_event_ids camp) \<and> events app eid = Some e)
        \<and> day anchor * 1440 \<le> to_minutes (start_time e)
        \<and> to_minutes (start_time e) < day anchor * 1440 + length_minutes r)
   \<and> get_campaign_events_by_range app camp r (anchor\<lparr>hour := h, minute := m\<rparr>)
       = get_campaign_events_by_range app camp r anchor
   \<and> get_campaign_events_by_range
        (app\<lparr>events := map_option (\<lambda>e. e\<lparr>end_time := f (end_time e)\<rparr>) \<circ> events app\<rparr>) camp r anchor
       = map (\<lambda>e. e\<lparr>end_time := f (end_time e)\<rparr>) (get_campaign_events_by_range app camp r anchor)"
proof (intro conjI)
  show "get_campaign_events_by_range app camp r anchor
     = sort_key (\<lambda>ev. to_minutes (start_time ev))
         (filter (in_window r anchor) (campaign_events app camp))"
    by (rule get_campaign_events_by_range_eq)
next
  show "mset (get_campaign_events_by_range app camp r anchor)
       = filter_mset (in_window r anchor) (mset (campaign_events app camp))"
    by (simp add: get_campaign_events_by_range_eq)
next
  show "sorted (map (\<lambda>ev. to_minutes (start_time ev)) (get_campaign_events_by_range app camp r anchor))"
    by (simp add: get_campaign_events_by_range_eq)
next
  have "e \<in> set (campaign_events app camp) \<longleftrightarrow>
          (\<exists>eid. eid \<in> set (quest_event_ids camp) \<and> events app eid = Some e)"
    by (simp add: campaign_events_def set_map_filter_iff)
  then show "e \<in> set (get_campaign_events_by_range app camp r anchor) \<longleftrightarrow>
        (\<exists>eid. eid \<in> set (quest_event_ids camp) \<and> events app eid = Some e)
        \<and> day anchor * 1440 \<le> to_minutes (start_time e)
        \<and> to_minutes (start_time e) < day anchor * 1440 + length_minutes r"
    by (simp add: get_campaign_events_by_range_eq in_window_def window_start_def conj_assoc)
next
  show "get_campaign_events_by_range app camp r (anchor\<lparr>hour := h, minute := m\<rparr>)
       = get_campaign_events_by_range app camp r anchor"
    by (simp add: get_campaign_events_by_range_def)
next
  show "get_campaign_events_by_range
        (app\<lparr>events := map_option (\<lambda>e. e\<lparr>end_time := f (end_time e)\<rparr>) \<circ> events app\<rparr>) camp r anchor
       = map (\<lambda>e. e\<lparr>end_time := f (end_time e)\<rparr>) (get_campaign_events_by_range app camp r anchor)"
    by (rule get_campaign_events_end_time)
qed

lemma demo_timeline_spec:
  "sort_key (\<lambda>ev. to_minutes (start_time ev))
     (filter (in_window DAY \<lparr>day = 5, hour = 9, minute = 0\<rparr>)
        (campaign_events demo_app demo_timeline_campaign))
   = [demo_event_morning, demo_event_late]"
proof -
  have ce: "campaign_events demo_app demo_timeline_campaign
              = [demo_event_late, demo_event_next_day, demo_event_morning]"
    by (simp add: campaign_events_def demo_app_def demo_timeline_campaign_def new_campaign_def
        List.map_filter_simps)
  have tm: "to_minutes (start_time demo_event_late) = 8639"
    "to_minutes (start_time demo_event_next_day) = 8640"
    "to_minutes (start_time demo_event_morning) = 7710"
    by (simp_all add: to_minutes_def demo_event_late_def demo_event_next_day_def
        demo_event_morning_def)
  show ?thesis
    unfolding ce by (simp add: in_window_def window_start_def tm)
qed

theorem C4_timeline_query_witness:
  "get_campaign_events_by_range demo_app demo_timeline_campaign DAY
     \<lparr>day = 5, hour = 9, minute = 0\<rparr> = [demo_event_morning, demo_event_late]"
  using C4_timeline_query [of demo_app demo_timeline_campaign DAY
      "\<lparr>day = 5, hour = 9, minute = 0\<rparr>"]
  unfolding demo_timeline_spec by blast

section \<open>Timeline display: properties\<close>

lemma local_str_dangling: "local_str None e = Inr (str_WorldClockTime (start_time e))"
  by (simp add: local_str_def)

lemma timeline_line_dangling:
  assumes "realms app (event_realm_id e) = None"
  shows "timeline_line app user e = Inr (world_time_line (time_display (settings user)) e)"
  using assms
  by (cases "time_display (settings user)")
     (simp_all add: timeline_line_def local_str_def world_time_line_def Let_def)

lemma timeline_lines_dangling:
  assumes "\<forall>e \<in> set es. realms app (event_realm_id e) = None"
  shows "timeline_lines app user es = Inr (map (world_time_line (time_display (settings user))) es)"
  using assms by (induction es) (simp_all add: timeline_line_dangling)

text \<open>
  Claim C9. For an event whose \<open>realm_id\<close> names no realm of the store, the local-time
  string is the world-time string and formatting the event's line raises nothing, under
  each of the three display preferences; a timeline of such events prints one such line
  per event and raises nothing.
\<close>

theorem C9_dangling_realm_display:
  assumes "realms app (event_realm_id e) = None"
  shows "local_str (realms app (event_realm_id e)) e = Inr (str_WorldClockTime (start_time e))
     \<and> timeline_line app user e = Inr (world_time_line (time_display (settings user)) e)
     \<and> ((\<forall>e' \<in> set es. realms app (event_realm_id e') = None) \<longrightarrow>
          timeline_lines app user es
            = Inr (map (world_time_line (time_display (settings user))) es))"
  using assms timeline_line_dangling [OF assms] timeline_lines_dangling [of es app user]
  by (simp add: local_str_dangling)

lemma str_nat_digit: "n < 10 \<Longrightarrow> str_nat n = [digit_char n]"
  by (simp add: str_nat.simps)

lemma demo_strs:
  "str_WorldClockTime \<lparr>day = 5, hour = 8, minute = 30\<rparr> = ''Day 5 08:30''"
  "str_WorldClockTime \<lparr>day = 5, hour = 23, minute = 59\<rparr> = ''Day 5 23:59''"
  by (simp_all add: str_WorldClockTime_def fmt_02d_def str_int_def str_nat.simps [of 30]
     str_nat.simps [of 23] str_nat.simps [of 59] str_nat_digit digit_char_def)

theorem C9_dangling_realm_display_witness:
  "timeline_lines demo_app demo_user [demo_event_morning, demo_event_late]
     = Inr [''- E3: Council @ Day 5 08:30 | Day 5 08:30 (R7)'',
            ''- E1: Night watch @ Day 5 23:59 | Day 5 23:59 (R1)'']
   \<and> timeline_line demo_app (demo_user\<lparr>settings := (settings demo_user)\<lparr>time_display := LOCAL\<rparr>\<rparr>)
        demo_event_morning = Inr ''- E3: Council @ Day 5 08:30 (R7)''
   \<and> timeline_line demo_app (demo_user\<lparr>settings := (settings demo_user)\<lparr>time_display := WORLD\<rparr>\<rparr>)
        demo_event_morning = Inr ''- E3: Council @ Day 5 08:30''"
proof -
  have r: "realms demo_app x = None" for x
    by (simp add: demo_app_def init_app_def)
  have l1: "world_time_line BOTH demo_event_morning
              = ''- E3: Council @ Day 5 08:30 | Day 5 08:30 (R7)''"
    and l2: "world_time_line BOTH demo_event_late
              = ''- E1: Night watch @ Day 5 23:59 | Day 5 23:59 (R1)''"
    and l3: "world_time_line LOCAL demo_event_morning = ''- E3: Council @ Day 5 08:30 (R7)''"
    and l4: "world_time_line WORLD demo_event_morning = ''- E3: Council @ Day 5 08:30''"
    by (simp_all add: world_time_line_def demo_event_morning_def demo_event_late_def demo_strs)
  have pref: "time_display (settings demo_user) = BOTH"
    by (simp add: demo_user_def)
  have "timeline_lines demo_app demo_user [demo_event_morning, demo_event_late]
     = Inr (map (world_time_line (time_display (settings demo_user)))
              [demo_event_morning, demo_event_late])"
    using C9_dangling_realm_display [OF r, of demo_event_morning demo_user
        "[demo_event_morning, demo_event_late]"] r
    by blast
  then have a: "timeline_lines demo_app demo_user [demo_event_morning, demo_event_late]
     = Inr [''- E3: Council @ Day 5 08:30 | Day 5 08:30 (R7)'',
            ''- E1: Night watch @ Day 5 23:59 | Day 5 23:59 (R1)'']"
    unfolding pref by (simp only: list.map l1 l2)
  have "timeline_line demo_app (demo_user\<lparr>settings := (settings demo_user)\<lparr>time_display := LOCAL\<rparr>\<rparr>)
        demo_event_morning = Inr (world_time_line LOCAL demo_event_morning)"
    using C9_dangling_realm_display [OF r, of demo_event_morning
        "demo_user\<lparr>settings := (settings demo_user)\<lparr>time_display := LOCAL\<rparr>\<rparr>" "[]"]
    by simp
  then have b: "timeline_line demo_app (demo_user\<lparr>settings := (settings demo_user)\<lparr>time_display := LOCAL\<rparr>\<rparr>)
        demo_event_morning = Inr ''- E3: Council @ Day 5 08:30 (R7)''"
    by (simp only: l3)
  have "timeline_line demo_app (demo_user\<lparr>settings := (settings demo_user)\<lparr>time_display := WORLD\<rparr>\<rparr>)
        demo_event_morning = Inr (world_time_line WORLD demo_event_morning)"
    using C9_dangling_realm_display [OF r, of demo_event_morning
        "demo_user\<lparr>settings := (settings demo_user)\<lparr>time_display := WORLD\<rparr>\<rparr>" "[]"]
    by simp
  then have c: "timeline_line demo_app (demo_user\<lparr>settings := (settings demo_user)\<lparr>time_display := WORLD\<rparr>\<rparr>)
        demo_event_morning = Inr ''- E3: Council @ Day 5 08:30''"
    by (simp only: l4)
  from a b c show ?thesis by blast
qed

section \<open>Inventory changes: properties\<close>

lemma remove_loop_eq:
  "list_all (\<lambda>x. item_name x \<noteq> nm) pre \<Longrightarrow>
     remove_loop nm qty its (pre @ its) removed
       = Inr (pre @ remove_first_named (nat (qty - removed)) nm its,
              removed + int (min (nat (qty - removed)) (count_named nm its)))"
proof (induction its arbitrary: pre removed)
  case Nil
  then show ?case by (simp add: count_named_def)
next
  case (Cons it its)
  show ?case
  proof (cases "removed \<ge> qty")
    case True
    then show ?thesis by simp
  next
    case False
    then have pos: "nat (qty - removed) \<noteq> 0" by simp
    show ?thesis
    proof (cases "item_name it = nm")
      case True
      have notin: "it \<notin> set pre"
        using Cons.prems True by (auto simp add: list_all_iff)
      then have r1: "remove1 it (pre @ it # its) = pre @ its"
        by (simp add: remove1_append)
      have n1: "nat (qty - (removed + 1)) = nat (qty - removed) - 1" by simp
      have c1: "count_named nm (it # its) = Suc (count_named nm its)"
        using True by (simp add: count_named_def)
      have m1: "int (min (nat (qty - removed)) (Suc (count_named nm its)))
                  = 1 + int (min (nat (qty - removed) - 1) (count_named nm its))"
        using pos by (cases "nat (qty - removed)") simp_all
      from Cons.IH [OF Cons.prems, of "removed + 1"]
      show ?thesis
        using False True pos by (simp add: r1 n1 c1 m1)
    next
      case nomatch: False
      have pre': "list_all (\<lambda>x. item_name x \<noteq> nm) (pre @ [it])"
        using Cons.prems nomatch by simp
      have c2: "count_named nm (it # its) = count_named nm its"
        using nomatch by (simp add: count_named_def)
      from Cons.IH [OF pre', of removed]
      show ?thesis
        using False nomatch pos by (simp add: c2)
    qed
  qed
qed

lemma remove_item_by_name_eq:
  "remove_item_by_name ch nm qty
     = Inr (ch\<lparr>inventory := remove_first_named (nat qty) nm (inventory ch)\<rparr>,
            int (min (nat qty) (count_named nm (inventory ch))))"
  using remove_loop_eq [of nm "[]" qty "inventory ch" 0]
  by (simp add: remove_item_by_name_def)

lemma remove_first_named_all:
  "count_named nm its \<le> n \<Longrightarrow>
     remove_first_named n nm its = filter (\<lambda>it. item_name it \<noteq> nm) its"
proof (induction its arbitrary: n)
  case Nil
  then show ?case by simp
next
  case (Cons it its)
  show ?case
  proof (cases "item_name it = nm")
    case True
    with Cons.prems have "count_named nm its \<le> n - 1" and "n \<noteq> 0"
      by (simp_all add: count_named_def)
    with Cons.IH [of "n - 1"] True show ?thesis by simp
  next
    case False
    with Cons.prems have le: "count_named nm its \<le> n" by (simp add: count_named_def)
    show ?thesis
    proof (cases "n = 0")
      case True
      with le have "filter (\<lambda>it. item_name it = nm) its = []" by (simp add: count_named_def)
      then have "filter (\<lambda>it. item_name it \<noteq> nm) its = its"
        by (simp add: filter_empty_conv filter_id_conv)
      with True False show ?thesis by simp
    next
      case nz: False
      with Cons.IH [OF le] False show ?thesis by simp
    qed
  qed
qed

lemma remove_first_named_others:
  "filter (\<lambda>it. item_name it \<noteq> nm) (remove_first_named n nm its)
     = filter (\<lambda>it. item_name it \<noteq> nm) its"
  by (induction its arbitrary: n) simp_all

lemma remove_first_named_count:
  "count_named nm (remove_first_named n nm its) = count_named nm its - n"
  by (induction its arbitrary: n) (auto simp add: count_named_def)

lemma add_item_times_eq:
  "add_item_times n ch it = ch\<lparr>inventory := inventory ch @ replicate n it\<rparr>"
  by (induction n arbitrary: ch) (simp_all add: add_item_def replicate_app_Cons_same)

lemma apply_change_to_eq:
  "apply_change_to chars chg cid = Inr (changed_chars chars chg cid)"
  by (simp add: apply_change_to_def changed_chars_def add_item_times_eq
      remove_item_by_name_eq split: option.splits)

lemma apply_change_to_targets_eq:
  "apply_change_to_targets chars chg cids
     = Inr (foldl (\<lambda>cs cid. changed_chars cs chg cid) chars cids)"
  by (induction cids arbitrary: chars) (simp_all add: apply_change_to_eq)

lemma apply_changes_eq:
  "apply_changes chars e chgs
     = Inr (foldl (\<lambda>cs chg. foldl (\<lambda>cs cid. changed_chars cs chg cid) cs (change_targets e chg))
              chars chgs)"
  by (induction chgs arbitrary: chars) (simp_all add: apply_change_to_targets_eq)

lemma apply_event_inventory_changes_eq:
  "apply_event_inventory_changes app e
     = Inr (app\<lparr>characters :=
         foldl (\<lambda>cs chg. foldl (\<lambda>cs cid. changed_chars cs chg cid) cs (change_targets e chg))
           (characters app) (inventory_changes e)\<rparr>)"
  by (simp add: apply_event_inventory_changes_def apply_changes_eq)

lemma changed_chars_remove_all:
  assumes "chars cid = Some ch" and "delta_qty chg < 0"
    and "count_named (item_name (item chg)) (inventory ch) \<le> nat (- delta_qty chg)"
  shows "changed_chars chars chg cid
           = chars(cid \<mapsto> ch\<lparr>inventory :=
               filter (\<lambda>it. item_name it \<noteq> item_name (item chg)) (inventory ch)\<rparr>)"
  using assms(1,2) by (simp add: changed_chars_def remove_first_named_all [OF assms(3)])

text \<open>
  Claim C5, as amended. For each change of an event, the targets are the single id
  \<open>target_char_id\<close> when that field is present and not the empty string, and the event's
  participant list otherwise (absent or empty). On each target in turn: an id with no
  character is skipped; a positive \<open>delta_qty\<close> appends the item that many times, each as
  an entry of its own; a negative one removes the first \<open>|delta_qty|\<close> items of that name,
  all of them when fewer exist, and leaves the other items as they are. Applying an
  event's changes raises nothing.
\<close>

theorem C5_inventory_changes:
  "change_targets e chg =
     (case target_char_id chg of
        None \<Rightarrow> participant_char_ids e
      | Some t \<Rightarrow> if t = [] then participant_char_ids e else [t])
   \<and> apply_change_to chars chg cid = Inr (changed_chars chars chg cid)
   \<and> apply_event_inventory_changes app e
       = Inr (app\<lparr>characters :=
           foldl (\<lambda>cs chg. foldl (\<lambda>cs cid. changed_chars cs chg cid) cs (change_targets e chg))
             (characters app) (inventory_changes e)\<rparr>)
   \<and> (chars cid = None \<longrightarrow> changed_chars chars chg cid = chars)
   \<and> (chars cid = Some ch \<and> 0 < delta_qty chg \<longrightarrow>
        changed_chars chars chg cid
          = chars(cid \<mapsto> ch\<lparr>inventory := inventory ch @ replicate (nat (delta_qty chg)) (item chg)\<rparr>))
   \<and> (chars cid = Some ch \<and> delta_qty chg < 0 \<longrightarrow>
        changed_chars chars chg cid
          = chars(cid \<mapsto> ch\<lparr>inventory :=
              remove_first_named (nat (- delta_qty chg)) (item_name (item chg)) (inventory ch)\<rparr>))
   \<and> (chars cid = Some ch \<and> delta_qty chg < 0
        \<and> count_named (item_name (item chg)) (inventory ch) \<le> nat (- delta_qty chg) \<longrightarrow>
        changed_chars chars chg cid
          = chars(cid \<mapsto> ch\<lparr>inventory :=
              filter (\<lambda>it. item_name it \<noteq> item_name (item chg)) (inventory ch)\<rparr>))
   \<and> filter (\<lambda>it. item_name it \<noteq> nm) (remove_first_named n nm its)
       = filter (\<lambda>it. item_name it \<noteq> nm) its
   \<and> count_named nm (remove_first_named n nm its) = count_named nm its - n"
proof (intro conjI impI)
  show "change_targets e chg =
     (case target_char_id chg of
        None \<Rightarrow> participant_char_ids e
      | Some t \<Rightarrow> if t = [] then participant_char_ids e else [t])"
    by (simp add: change_targets_def split: option.splits)
next
  show "apply_change_to chars chg cid = Inr (changed_chars chars chg cid)"
    by (rule apply_change_to_eq)
next
  show "apply_event_inventory_changes app e
       = Inr (app\<lparr>characters :=
           foldl (\<lambda>cs chg. foldl (\<lambda>cs cid. changed_chars cs chg cid) cs (change_targets e chg))
             (characters app) (inventory_changes e)\<rparr>)"
    by (rule apply_event_inventory_changes_eq)
next
  assume "chars cid = None"
  then show "changed_chars chars chg cid = chars"
    by (simp add: changed_chars_def)
next
  assume "chars cid = Some ch \<and> 0 < delta_qty chg"
  then show "changed_chars chars chg cid
          = chars(cid \<mapsto> ch\<lparr>inventory := inventory ch @ replicate (nat (delta_qty chg)) (item chg)\<rparr>)"
    by (simp add: changed_chars_def)
next
  assume "chars cid = Some ch \<and> delta_qty chg < 0"
  then show "changed_chars chars chg cid
          = chars(cid \<mapsto> ch\<lparr>inventory :=
              remove_first_named (nat (- delta_qty chg)) (item_name (item chg)) (inventory ch)\<rparr>)"
    by (simp add: changed_chars_def)
next
  assume "chars cid = Some ch \<and> delta_qty chg < 0
        \<and> count_named (item_name (item chg)) (inventory ch) \<le> nat (- delta_qty chg)"
  then show "changed_chars chars chg cid
          = chars(cid \<mapsto> ch\<lparr>inventory :=
              filter (\<lambda>it. item_name it \<noteq> item_name (item chg)) (inventory ch)\<rparr>)"
    by (simp add: changed_chars_remove_all)
next
  show "filter (\<lambda>it. item_name it \<noteq> nm) (remove_first_named n nm its)
       = filter (\<lambda>it. item_name it \<noteq> nm) its"
    by (rule remove_first_named_others)
next
  show "count_named nm (remove_first_named n nm its) = count_named nm its - n"
    by (rule remove_first_named_count)
qed

lemma demo_chars_lookup:
  "demo_chars ''C1'' = Some demo_hero" "demo_chars ''C404'' = None" "demo_chars '''' = None"
  by (simp_all add: demo_chars_def)

lemma demo_remove_fold:
  "foldl (\<lambda>cs chg. foldl (\<lambda>cs cid. changed_chars cs chg cid) cs
            (change_targets demo_remove_event chg))
     demo_chars (inventory_changes demo_remove_event)
   = demo_chars(''C1'' \<mapsto> demo_hero\<lparr>inventory := [demo_sword]\<rparr>)"
proof -
  have names: "item_name demo_potion = ''potion''" "item_name demo_old_potion = ''potion''"
    "item_name demo_sword = ''sword''"
    by (simp_all add: demo_potion_def demo_old_potion_def demo_sword_def)
  have inv: "inventory demo_hero = [demo_potion, demo_sword, demo_old_potion]"
    by (simp add: demo_hero_def)
  have rm: "remove_first_named 3 ''potion'' [demo_potion, demo_sword, demo_old_potion] = [demo_sword]"
    by (simp add: names numeral_3_eq_3)
  show ?thesis
    by (simp add: demo_remove_event_def demo_event_late_def change_targets_def
        changed_chars_def demo_chars_lookup names inv rm)
qed

theorem C5_inventory_changes_witness:
  "apply_event_inventory_changes demo_inventory_app demo_remove_event
     = Inr (demo_inventory_app\<lparr>characters :=
              demo_chars(''C1'' \<mapsto> demo_hero\<lparr>inventory := [demo_sword]\<rparr>)\<rparr>)"
proof -
  have c: "characters demo_inventory_app = demo_chars"
    by (simp add: demo_inventory_app_def)
  have "apply_event_inventory_changes demo_inventory_app demo_remove_event
       = Inr (demo_inventory_app\<lparr>characters :=
           foldl (\<lambda>cs chg. foldl (\<lambda>cs cid. changed_chars cs chg cid) cs
                    (change_targets demo_remove_event chg))
             (characters demo_inventory_app) (inventory_changes demo_remove_event)\<rparr>)"
    using C5_inventory_changes [where e = demo_remove_event and app = demo_inventory_app] by blast
  then show ?thesis unfolding c demo_remove_fold .
qed

theorem C5_blank_target_counterexample:
  "target_char_id demo_blank_change = Some ''''
   \<and> characters demo_inventory_app '''' = None
   \<and> change_targets demo_blank_target_event demo_blank_change = [''C1'']
   \<and> apply_event_inventory_changes demo_inventory_app demo_blank_target_event
       = Inr (demo_inventory_app\<lparr>characters :=
           demo_chars(''C1'' \<mapsto> demo_hero\<lparr>inventory :=
             [demo_potion, demo_sword, demo_old_potion, demo_sword]\<rparr>)\<rparr>)"
proof -
  have c: "characters demo_inventory_app = demo_chars"
    by (simp add: demo_inventory_app_def)
  have t: "change_targets demo_blank_target_event demo_blank_change = [''C1'']"
    by (simp add: change_targets_def demo_blank_change_def demo_blank_target_event_def
        demo_event_late_def)
  have ic: "inventory_changes demo_blank_target_event = [demo_blank_change]"
    by (simp add: demo_blank_target_event_def)
  have inv: "inventory demo_hero = [demo_potion, demo_sword, demo_old_potion]"
    by (simp add: demo_hero_def)
  have d: "delta_qty demo_blank_change = 1" "item demo_blank_change = demo_sword"
    by (simp_all add: demo_blank_change_def)
  have ch: "changed_chars demo_chars demo_blank_change ''C1''
      = demo_chars(''C1'' \<mapsto> demo_hero\<lparr>inventory :=
             [demo_potion, demo_sword, demo_old_potion, demo_sword]\<rparr>)"
    by (simp add: changed_chars_def demo_chars_lookup d inv)
  have "apply_event_inventory_changes demo_inventory_app demo_blank_target_event
       = Inr (demo_inventory_app\<lparr>characters :=
           demo_chars(''C1'' \<mapsto> demo_hero\<lparr>inventory :=
             [demo_potion, demo_sword, demo_old_potion, demo_sword]\<rparr>)\<rparr>)"
    unfolding apply_event_inventory_changes_eq c
    by (simp add: ic t ch)
  then show ?thesis
    using t by (simp add: demo_blank_change_def c demo_chars_lookup)
qed

section \<open>Persistence codec: properties\<close>

lemma PermissionLevel_of_value_str:
  "PermissionLevel_of_value (PermissionLevel_str p) = Inl ValueError"
  by (cases p) (simp_all add: PermissionLevel_of_value_def)

lemma PermissionLevel_of_value_value:
  "PermissionLevel_of_value (PermissionLevel_value p) = Inr p"
  by (cases p) (simp_all add: PermissionLevel_of_value_def)

lemma dict_to_share_to_dict: "dict_to_share (share_to_dict s) = Inl ValueError"
  by (simp add: dict_to_share_def share_to_dict_def lookup_key_def PermissionLevel_of_value_str)

lemma decode_shares_to_dict:
  "decode_list dict_to_share (map share_to_dict ss) = (if ss = [] then Inr [] else Inl ValueError)"
  by (cases ss) (simp_all add: dict_to_share_to_dict)

lemma Visibility_of_value_value: "Visibility_of_value (Visibility_value v) = Inr v"
  by (cases v) (simp_all add: Visibility_of_value_def)

lemma campaign_roundtrip:
  "dict_to_campaign (campaign_to_dict c) = (if shares c = [] then Inr c else Inl ValueError)"
  by (simp add: dict_to_campaign_def campaign_to_dict_def get_default_def lookup_key_def
      decode_shares_to_dict Visibility_of_value_value)

lemma dict_to_time_to_dict:
  assumes "valid_time t"
  shows "dict_to_time (time_to_dict t) = Inr t"
proof -
  have "mk_WorldClockTime (day t) (hour t) (minute t) = Inr \<lparr>day = day t, hour = hour t, minute = minute t\<rparr>"
    using assms by (intro mk_WorldClockTime_Inr) (simp_all add: valid_time_def)
  then show ?thesis
    by (simp add: dict_to_time_def time_to_dict_def lookup_key_def)
qed

lemma dict_to_end_time_to_dict:
  assumes "case et of None \<Rightarrow> True | Some t \<Rightarrow> valid_time t"
  shows "dict_to_end_time (map_option time_to_dict et) = Inr et"
proof (cases et)
  case None
  then show ?thesis by (simp add: dict_to_end_time_def)
next
  case (Some t)
  with assms have "valid_time t" by simp
  then have "dict_to_time (time_to_dict t) = Inr t" by (rule dict_to_time_to_dict)
  moreover have "end_time_truthy (Some (time_to_dict t))"
    by (simp add: end_time_truthy_def time_to_dict_def)
  ultimately show ?thesis using Some by (simp add: dict_to_end_time_def)
qed

lemma dict_to_item_to_dict: "dict_to_item (item_to_dict it) = Inr it"
  by (simp add: dict_to_item_def item_to_dict_def get_default_def)

lemma dict_to_change_to_dict: "dict_to_change (change_to_dict chg) = Inr chg"
  by (simp add: dict_to_change_def change_to_dict_def lookup_key_def dict_to_item_to_dict)

lemma decode_changes_to_dict:
  "decode_list dict_to_change (map change_to_dict chgs) = Inr chgs"
  by (induction chgs) (simp_all add: dict_to_change_to_dict)

lemma event_roundtrip:
  assumes "valid_time (start_time e)"
    and "case end_time e of None \<Rightarrow> True | Some t \<Rightarrow> valid_time t"
  shows "dict_to_event (event_to_dict e)
           = (if event_shares e = [] then Inr e else Inl ValueError)"
  using dict_to_time_to_dict [OF assms(1)] dict_to_end_time_to_dict [OF assms(2)]
  by (simp add: dict_to_event_def event_to_dict_def get_default_def lookup_key_def
      decode_shares_to_dict decode_changes_to_dict)

text \<open>
  Claim C1, on the code. A permission level decodes from its value, but not from its
  \<open>str\<close>. Decoding an encoded campaign returns the campaign when it has no share and
  raises \<open>ValueError\<close> when it has one: the share's permission is written as \<open>str\<close> of
  the enum member, which is not the member's value. The same holds for an event
  whose times are valid: with no share it is returned, an absent \<open>end_time\<close> and the order
  of its participants and inventory changes included; with a share decoding raises
  \<open>ValueError\<close>.
\<close>

theorem C1_roundtrip_on_code:
  "PermissionLevel_of_value (PermissionLevel_value p) = Inr p
   \<and> PermissionLevel_of_value (PermissionLevel_str p) = Inl ValueError
   \<and> dict_to_campaign (campaign_to_dict c) = (if shares c = [] then Inr c else Inl ValueError)
   \<and> (valid_time (start_time e) \<and> (case end_time e of None \<Rightarrow> True | Some t \<Rightarrow> valid_time t)
        \<longrightarrow> dict_to_event (event_to_dict e)
              = (if event_shares e = [] then Inr e else Inl ValueError))"
  using PermissionLevel_of_value_value [of p] PermissionLevel_of_value_str [of p]
    campaign_roundtrip [of c] event_roundtrip [of e]
  by blast

theorem C1_roundtrip_on_code_witness:
  "dict_to_campaign (campaign_to_dict demo_campaign) = Inl ValueError
   \<and> cd_shares (campaign_to_dict demo_campaign)
       = Some [\<lparr>sd_shared_with_user = Some ''bob'',
                sd_permission = Some ''PermissionLevel.COLLABORATIVE''\<rparr>]
   \<and> dict_to_event (event_to_dict demo_event_late) = Inr demo_event_late"
proof -
  have a: "dict_to_campaign (campaign_to_dict demo_campaign) = Inl ValueError"
    using C1_roundtrip_on_code [of _ demo_campaign demo_event_late]
    by (simp add: demo_campaign_def)
  have b: "cd_shares (campaign_to_dict demo_campaign)
       = Some [\<lparr>sd_shared_with_user = Some ''bob'',
                sd_permission = Some ''PermissionLevel.COLLABORATIVE''\<rparr>]"
    by (simp add: campaign_to_dict_def demo_campaign_def share_to_dict_def)
  have v: "valid_time (start_time demo_event_late)" "end_time demo_event_late = None"
    "event_shares demo_event_late = []"
    by (simp_all add: demo_event_late_def valid_time_def)
  have c: "dict_to_event (event_to_dict demo_event_late) = Inr demo_event_late"
    using C1_roundtrip_on_code [of _ demo_campaign demo_event_late] v by simp
  from a b c show ?thesis by blast
qed

section \<open>Load: properties\<close>

lemma load_NoFile: "load app NoFile = (app, None)"
  by (simp add: load_def)

lemma load_NotJson: "load app NotJson = (app, Some JSONDecodeError)"
  by (simp add: load_def)

lemma load_success:
  assumes "snd (load app (Json pl)) = None"
  shows "\<exists>us rs cs es chs.
           load_users Map.empty (get_default (p_users pl) []) = (us, None)
           \<and> decode_dict dict_to_realm (get_default (p_realms pl) []) Map.empty = Inr rs
           \<and> decode_dict dict_to_campaign (get_default (p_campaigns pl) []) Map.empty = Inr cs
           \<and> decode_dict dict_to_event (get_default (p_events pl) []) Map.empty = Inr es
           \<and> decode_dict dict_to_character (get_default (p_characters pl) []) Map.empty = Inr chs
           \<and> fst (load app (Json pl))
               = reset_current_user
                   \<lparr>users = us, realms = rs, campaigns = cs, events = es, characters = chs,
                    id_counters = get_default (p_id_counters pl) (id_counters app),
                    current_user = p_current_user pl\<rparr>"
  using assms
  by (cases app)
     (auto simp add: load_def Let_def split: prod.splits option.splits sum.splits)

lemma reset_current_user_users [simp]: "users (reset_current_user app) = users app"
  by (simp add: reset_current_user_def split: option.splits)

lemma reset_current_user_cases:
  "current_user (reset_current_user app) = None
   \<or> current_user (reset_current_user app) = Some []
   \<or> (\<exists>u. current_user (reset_current_user app) = Some u \<and> users app u \<noteq> None)"
  by (auto simp add: reset_current_user_def split: option.splits)

lemma reset_current_user_dangling:
  "current_user app = Some u \<Longrightarrow> u \<noteq> [] \<Longrightarrow> users app u = None \<Longrightarrow>
     current_user (reset_current_user app) = None"
  by (simp add: reset_current_user_def)

text \<open>
  Claim C3, as amended. A load of a missing file returns with the store as it was, and a
  load of a file that is not JSON raises with the store as it was. A load that returns
  from a document has replaced users, realms, campaigns, events and characters by what
  the document's entries decode to (nothing where the key is absent), the id counters by
  the document's (the old ones where the key is absent) and the current user by the
  document's, reset by the last statement of \<open>load\<close>.
\<close>

theorem C3_load_outcomes:
  "load app NoFile = (app, None)
   \<and> load app NotJson = (app, Some JSONDecodeError)
   \<and> (snd (load app (Json pl)) = None \<longrightarrow>
        (\<exists>us rs cs es chs.
           load_users Map.empty (get_default (p_users pl) []) = (us, None)
           \<and> decode_dict dict_to_realm (get_default (p_realms pl) []) Map.empty = Inr rs
           \<and> decode_dict dict_to_campaign (get_default (p_campaigns pl) []) Map.empty = Inr cs
           \<and> decode_dict dict_to_event (get_default (p_events pl) []) Map.empty = Inr es
           \<and> decode_dict dict_to_character (get_default (p_characters pl) []) Map.empty = Inr chs
           \<and> fst (load app (Json pl))
               = reset_current_user
                   \<lparr>users = us, realms = rs, campaigns = cs, events = es, characters = chs,
                    id_counters = get_default (p_id_counters pl) (id_counters app),
                    current_user = p_current_user pl\<rparr>))"
  using load_NoFile [of app] load_NotJson [of app] load_success [of app pl] by blast

lemma demo_bob_user:
  "dict_to_user ''bob'' \<lparr>ud_settings = Some demo_settings_dict, ud_campaign_ids = None,
                          ud_character_ids = None\<rparr>
     = Inr \<lparr>username = ''bob'',
            settings = \<lparr>current_realm_id = ''R1'', theme = ''classic'', time_display = LOCAL\<rparr>,
            campaign_ids = [], character_ids = []\<rparr>"
  by (simp add: dict_to_user_def demo_settings_dict_def lookup_key_def get_default_def
      TimeDisplayPreference_of_value_def)

lemma demo_dangling_load:
  "load demo_logged_in_app (Json demo_dangling_user_payload)
     = (\<lparr>users = [''bob'' \<mapsto> \<lparr>username = ''bob'',
            settings = \<lparr>current_realm_id = ''R1'', theme = ''classic'', time_display = LOCAL\<rparr>,
            campaign_ids = [], character_ids = []\<rparr>],
         realms = Map.empty, campaigns = Map.empty, events = Map.empty,
         characters = Map.empty, id_counters = id_counters init_app, current_user = None\<rparr>,
        None)"
  by (simp add: load_def demo_dangling_user_payload_def demo_blank_user_payload_def
      demo_logged_in_app_def init_app_def get_default_def demo_bob_user
      reset_current_user_def Let_def)

theorem C3_load_outcomes_witness:
  "load demo_logged_in_app NoFile = (demo_logged_in_app, None)
   \<and> load demo_logged_in_app NotJson = (demo_logged_in_app, Some JSONDecodeError)
   \<and> snd (load demo_logged_in_app (Json demo_dangling_user_payload)) = None
   \<and> users (fst (load demo_logged_in_app (Json demo_dangling_user_payload))) ''alice'' = None
   \<and> realms (fst (load demo_logged_in_app (Json demo_dangling_user_payload))) = Map.empty"
proof -
  note t = C3_load_outcomes [of demo_logged_in_app demo_dangling_user_payload]
  have ok: "snd (load demo_logged_in_app (Json demo_dangling_user_payload)) = None"
    by (simp add: demo_dangling_load)
  from t ok obtain us rs cs es chs where
    us: "load_users Map.empty (get_default (p_users demo_dangling_user_payload) []) = (us, None)"
    and rs: "decode_dict dict_to_realm (get_default (p_realms demo_dangling_user_payload) [])
               Map.empty = Inr rs"
    and st: "fst (load demo_logged_in_app (Json demo_dangling_user_payload))
               = reset_current_user
                   \<lparr>users = us, realms = rs, campaigns = cs, events = es, characters = chs,
                    id_counters = get_default (p_id_counters demo_dangling_user_payload)
                                    (id_counters demo_logged_in_app),
                    current_user = p_current_user demo_dangling_user_payload\<rparr>"
    by blast
  have "us ''alice'' = None"
    using us by (auto simp add: demo_dangling_user_payload_def demo_blank_user_payload_def
        get_default_def demo_bob_user)
  then have a: "users (fst (load demo_logged_in_app (Json demo_dangling_user_payload))) ''alice''
                  = None"
    unfolding st by simp
  have "rs = Map.empty"
    using rs by (simp add: demo_dangling_user_payload_def demo_blank_user_payload_def
        get_default_def)
  then have b: "realms (fst (load demo_logged_in_app (Json demo_dangling_user_payload)))
                  = Map.empty"
    unfolding st by (simp add: reset_current_user_def split: option.splits)
  from t ok a b show ?thesis by blast
qed

theorem C3_partial_load_counterexample:
  "load demo_logged_in_app (Json demo_bad_payload)
     = (demo_logged_in_app\<lparr>current_user := Some ''bob'', users := Map.empty\<rparr>, Some KeyError)
   \<and> current_user demo_logged_in_app = Some ''alice''
   \<and> users demo_logged_in_app ''alice'' = Some demo_user
   \<and> fst (load demo_logged_in_app (Json demo_bad_payload)) \<noteq> demo_logged_in_app"
proof -
  have l: "load demo_logged_in_app (Json demo_bad_payload)
     = (demo_logged_in_app\<lparr>current_user := Some ''bob'', users := Map.empty\<rparr>, Some KeyError)"
    by (simp add: load_def demo_bad_payload_def get_default_def dict_to_user_def
        lookup_key_def Let_def)
  have c: "current_user demo_logged_in_app = Some ''alice''"
    and u: "users demo_logged_in_app ''alice'' = Some demo_user"
    by (simp_all add: demo_logged_in_app_def)
  have "current_user (fst (load demo_logged_in_app (Json demo_bad_payload))) = Some ''bob''"
    unfolding l by simp
  with c have "fst (load demo_logged_in_app (Json demo_bad_payload)) \<noteq> demo_logged_in_app"
    by auto
  with l c u show ?thesis by blast
qed

text \<open>
  Claim C10, as amended. After a load that returns from a document, \<open>current_user\<close> is
  \<open>None\<close>, or the empty string, or the username of a user in the loaded users; a
  \<open>current_user\<close> of the document that is not empty and names no loaded user is reset to
  \<open>None\<close>.
\<close>

theorem C10_current_user_after_load:
  assumes "snd (load app (Json pl)) = None"
  shows "(current_user (fst (load app (Json pl))) = None
          \<or> current_user (fst (load app (Json pl))) = Some []
          \<or> (\<exists>u. current_user (fst (load app (Json pl))) = Some u
                \<and> users (fst (load app (Json pl))) u \<noteq> None))
     \<and> (\<forall>u. p_current_user pl = Some u \<and> u \<noteq> [] \<and> users (fst (load app (Json pl))) u = None
            \<longrightarrow> current_user (fst (load app (Json pl))) = None)"
proof -
  from load_success [OF assms] obtain us rs cs es chs where
    st: "fst (load app (Json pl))
           = reset_current_user
               \<lparr>users = us, realms = rs, campaigns = cs, events = es, characters = chs,
                id_counters = get_default (p_id_counters pl) (id_counters app),
                current_user = p_current_user pl\<rparr>"
    by blast
  let ?x = "\<lparr>users = us, realms = rs, campaigns = cs, events = es, characters = chs,
             id_counters = get_default (p_id_counters pl) (id_counters app),
             current_user = p_current_user pl\<rparr>"
  have 1: "current_user (reset_current_user ?x) = None
          \<or> current_user (reset_current_user ?x) = Some []
          \<or> (\<exists>u. current_user (reset_current_user ?x) = Some u
                \<and> users (reset_current_user ?x) u \<noteq> None)"
    using reset_current_user_cases [of ?x] by simp
  have 2: "\<forall>u. p_current_user pl = Some u \<and> u \<noteq> [] \<and> users (reset_current_user ?x) u = None
            \<longrightarrow> current_user (reset_current_user ?x) = None"
    using reset_current_user_dangling [of ?x] by simp
  from 1 2 show ?thesis unfolding st by blast
qed

theorem C10_current_user_after_load_witness:
  "snd (load demo_logged_in_app (Json demo_dangling_user_payload)) = None
   \<and> p_current_user demo_dangling_user_payload = Some ''carol''
   \<and> current_user (fst (load demo_logged_in_app (Json demo_dangling_user_payload))) = None"
proof -
  have ok: "snd (load demo_logged_in_app (Json demo_dangling_user_payload)) = None"
    by (simp add: demo_dangling_load)
  have p: "p_current_user demo_dangling_user_payload = Some ''carol''"
    by (simp add: demo_dangling_user_payload_def)
  have u: "users (fst (load demo_logged_in_app (Json demo_dangling_user_payload))) ''carol'' = None"
    by (simp add: demo_dangling_load)
  from C10_current_user_after_load [OF ok] p u
  have "current_user (fst (load demo_logged_in_app (Json demo_dangling_user_payload))) = None"
    by simp
  with ok p show ?thesis by blast
qed

theorem C10_blank_current_user_counterexample:
  "snd (load init_app (Json demo_blank_user_payload)) = None
   \<and> current_user (fst (load init_app (Json demo_blank_user_payload))) = Some ''''
   \<and> users (fst (load init_app (Json demo_blank_user_payload))) '''' = None"
  by (simp add: load_def demo_blank_user_payload_def init_app_def get_default_def
      demo_bob_user reset_current_user_def Let_def)

end
